theory Spec2Isabelle
  imports Main "HOL-Library.Word"
begin

section \<open>The client library\<close>

text \<open>
  The theory embeds the API client of the repository. The client module (an axios instance
  with a request and a response interceptor, and \<open>handleApiResponse\<close>) is lines 307 to 430
  of \<^verbatim>\<open>src/unnamed/part_000\<close>; the email operations are lines 1 to 306 of the same file;
  the email account operations are \<^verbatim>\<open>src/unnamed/part_001\<close>. The line numbers in the text
  below are those of these two files.

  The network is a parameter of the model, and the effects of a call are a trace of the
  requests sent and the delays waited. The base URL, the timeout of a single attempt and
  the console output of the interceptors do not enter the model.
\<close>

section \<open>JavaScript values\<close>

text \<open>
  A JavaScript string is a sequence of 16-bit code units, and \<open>length\<close> counts code
  units. Literals of the source that are plain ASCII are written through \<open>ascii\<close>; the
  Chinese messages of the source are given by their code units.
\<close>

type_synonym jsstring = "16 word list"

definition ascii :: "string \<Rightarrow> jsstring" where
  "ascii s = map (\<lambda>c. of_nat (of_char c)) s"

text \<open>
  The values the client handles. A number is an integer (the timestamps, counters, page
  numbers, error codes and HTTP statuses of the source) or NaN, the one number on which
  every comparison is false; fractions and the infinities are outside the model. An object
  is the list of its own properties in insertion order.
\<close>

datatype jsval =
    JUndefined
  | JNull
  | JBool bool
  | JNum int
  | JNaN
  | JStr jsstring
  | JArr "jsval list"
  | JObj "(jsstring \<times> jsval) list"

text \<open>ToBoolean: what \<open>!x\<close>, \<open>x || y\<close> and \<open>if (x)\<close> test.\<close>

fun truthy :: "jsval \<Rightarrow> bool" where
  "truthy JUndefined = False"
| "truthy JNull = False"
| "truthy (JBool b) = b"
| "truthy (JNum n) = (n \<noteq> 0)"
| "truthy JNaN = False"
| "truthy (JStr s) = (s \<noteq> [])"
| "truthy (JArr xs) = True"
| "truthy (JObj kvs) = True"

definition nullish :: "jsval \<Rightarrow> bool" where
  "nullish v = (v = JUndefined \<or> v = JNull)"

text \<open>
  The TypeError of Node.js (V8) for a property read on \<open>undefined\<close> or \<open>null\<close>, as the
  object a \<open>catch\<close> receives: its own property is \<open>message\<close>.
\<close>

definition type_error :: "jsval \<Rightarrow> jsstring \<Rightarrow> jsval" where
  "type_error v k =
     JObj [(ascii ''message'',
            JStr (ascii ''Cannot read properties of '' @
                  (if v = JNull then ascii ''null'' else ascii ''undefined'') @
                  ascii '' (reading '' @ [0x27] @ k @ [0x27] @ ascii '')''))]"

text \<open>
  \<open>v.k\<close> for the property names the source reads (\<open>data\<close>, \<open>errCode\<close>, \<open>errMsg\<close>,
  \<open>response\<close>, \<open>message\<close>): a read on \<open>undefined\<close> or \<open>null\<close> throws (\<open>Inl\<close>), an object
  gives its own property or \<open>undefined\<close>, and primitives and arrays have no property of
  these names.
\<close>

fun member :: "jsval \<Rightarrow> jsstring \<Rightarrow> jsval + jsval" where
  "member JUndefined k = Inl (type_error JUndefined k)"
| "member JNull k = Inl (type_error JNull k)"
| "member (JObj kvs) k = Inr (case map_of kvs k of None \<Rightarrow> JUndefined | Some v \<Rightarrow> v)"
| "member v k = Inr JUndefined"

text \<open>Optional chaining \<open>v?.k\<close>: \<open>undefined\<close> on a nullish \<open>v\<close>, never a throw.\<close>

definition opt_member :: "jsval \<Rightarrow> jsstring \<Rightarrow> jsval" where
  "opt_member v k = (case member v k of Inl _ \<Rightarrow> JUndefined | Inr x \<Rightarrow> x)"

section \<open>The result envelope and the response normaliser\<close>

text \<open>
  The object literals the operations return: \<open>{success, data}\<close> or \<open>{success, error}\<close>.
  \<open>None\<close> is a key that the literal does not have.
\<close>

record envelope =
  success :: bool
  data :: "jsval option"
  error :: "jsval option"

definition succeeded :: "jsval \<Rightarrow> envelope" where
  "succeeded d = \<lparr>success = True, data = Some d, error = None\<rparr>"

definition failed :: "jsval \<Rightarrow> envelope" where
  "failed e = \<lparr>success = False, data = None, error = Some e\<rparr>"

definition unknown_error :: jsstring where
  "unknown_error = [0x672A, 0x77E5, 0x9519, 0x8BEF]"

text \<open>A settled promise: the value it resolved with, or the value it rejected with.\<close>

datatype settled = Fulfilled jsval | Rejected jsval

text \<open>
  \<open>handleApiResponse\<close>, lines 405 to 428. The \<open>try\<close> block awaits the
  promise and reads the body; whatever it throws, the rejection value included, goes to
  the \<open>catch\<close> block. \<open>Inl\<close> is an exception that leaves the function.
\<close>

definition try_block :: "settled \<Rightarrow> jsval + envelope" where
  "try_block p =
     (case p of
        Rejected e \<Rightarrow> Inl e
      | Fulfilled response \<Rightarrow>
          (case member response (ascii ''data'') of
             Inl t \<Rightarrow> Inl t
           | Inr body \<Rightarrow>
               (case member body (ascii ''errCode'') of
                  Inl t \<Rightarrow> Inl t
                | Inr errCode \<Rightarrow>
                    if errCode = JNum 0
                    then (case member body (ascii ''data'') of
                            Inl t \<Rightarrow> Inl t
                          | Inr d \<Rightarrow> Inr (succeeded d))
                    else (case member body (ascii ''errMsg'') of
                            Inl t \<Rightarrow> Inl t
                          | Inr errMsg \<Rightarrow>
                              Inr (failed (if truthy errMsg then errMsg
                                           else JStr unknown_error))))))"

definition catch_block :: "jsval \<Rightarrow> jsval + envelope" where
  "catch_block e =
     (case member e (ascii ''response'') of
        Inl t \<Rightarrow> Inl t
      | Inr response \<Rightarrow>
          (let errMsg = opt_member (opt_member response (ascii ''data'')) (ascii ''errMsg'')
           in if truthy errMsg then Inr (failed errMsg)
              else (case member e (ascii ''message'') of
                      Inl t \<Rightarrow> Inl t
                    | Inr message \<Rightarrow>
                        Inr (failed (if truthy message then message
                                     else JStr unknown_error)))))"

definition handleApiResponse :: "settled \<Rightarrow> jsval + envelope" where
  "handleApiResponse apiPromise =
     (case try_block apiPromise of
        Inr env \<Rightarrow> Inr env
      | Inl e \<Rightarrow> catch_block e)"

section \<open>The retry-aware transport\<close>

text \<open>
  The request configuration of axios with the three retry fields the interceptors attach
  to it. \<open>None\<close> is a field the object does not have.
\<close>

record config =
  cfg_method :: jsstring
  cfg_url :: jsstring
  cfg_data :: jsval
  retryCount :: "int option"
  maxRetries :: "int option"
  retryDelay :: "int option"

record response =
  resp_status :: int
  resp_data :: jsval

text \<open>
  What axios reports of a dispatch that failed: the error's \<open>code\<close>, \<open>message\<close> and
  \<open>response\<close>, and whether the error carries the configuration of the request (an
  AxiosError does; an error thrown before the dispatch does not).
\<close>

record failure =
  fail_code :: "jsstring option"
  fail_message :: "jsstring option"
  fail_response :: "response option"
  fail_config :: bool

record error =
  err_code :: "jsstring option"
  err_message :: "jsstring option"
  err_response :: "response option"
  err_config :: "config option"

definition axios_error :: "config \<Rightarrow> failure \<Rightarrow> error" where
  "axios_error config f =
     \<lparr>err_code = fail_code f, err_message = fail_message f, err_response = fail_response f,
      err_config = (if fail_config f then Some config else None)\<rparr>"

text \<open>
  The network and the backend, as axios sees them: the answer to the request that is
  dispatched after \<open>k\<close> earlier ones. It is a parameter of every operation.
\<close>

type_synonym adapter = "nat \<Rightarrow> config \<Rightarrow> failure + response"

text \<open>
  The effects of a call: the requests dispatched and the delays waited, in order. The
  console output of the interceptors is not part of the model.
\<close>

datatype event = Sent config | Slept "int option"

fun sent_count :: "event list \<Rightarrow> nat" where
  "sent_count [] = 0"
| "sent_count (Sent c # w) = Suc (sent_count w)"
| "sent_count (Slept d # w) = sent_count w"

text \<open>\<open>x || d\<close> for a field that is a number or absent.\<close>

definition or_default :: "int option \<Rightarrow> int \<Rightarrow> int" where
  "or_default x d = (case x of None \<Rightarrow> d | Some n \<Rightarrow> if n \<noteq> 0 then n else d)"

text \<open>\<open>x < y\<close> for such fields: an absent operand is NaN, and the comparison is false.\<close>

definition js_less :: "int option \<Rightarrow> int option \<Rightarrow> bool" where
  "js_less x y = (case (x, y) of (Some a, Some b) \<Rightarrow> a < b | _ \<Rightarrow> False)"

text \<open>The request interceptor, lines 330 to 338.\<close>

definition request_interceptor :: "config \<Rightarrow> config" where
  "request_interceptor config =
     config\<lparr>retryCount := Some (or_default (retryCount config) 0),
            maxRetries := Some (or_default (maxRetries config) 2),
            retryDelay := Some (or_default (retryDelay config) 1000)\<rparr>"

text \<open>The retry decision of the response interceptor, lines 372 to 381.\<close>

definition shouldRetry :: "error \<Rightarrow> bool" where
  "shouldRetry err =
     (case err_config err of
        None \<Rightarrow> False
      | Some config \<Rightarrow>
          js_less (retryCount config) (maxRetries config) \<and>
          (err_code err = Some (ascii ''ECONNABORTED'') \<or>
           err_code err = Some (ascii ''ETIMEDOUT'') \<or>
           err_code err = Some (ascii ''ECONNRESET'') \<or>
           err_code err = Some (ascii ''ENOTFOUND'') \<or>
           err_code err = Some (ascii ''EAI_AGAIN'') \<or>
           err_code err = Some (ascii ''ENETUNREACH'') \<or>
           err_response err = None))"

text \<open>\<open>config.retryCount += 1\<close>, line 384.\<close>

definition bump :: "config \<Rightarrow> config" where
  "bump config = config\<lparr>retryCount := map_option (\<lambda>n. n + 1) (retryCount config)\<rparr>"

datatype outcome = Resolved response | Failed error

text \<open>
  One call of the client: the request interceptor, the dispatch, and the response
  interceptor, which returns the response, rejects with the error, or waits and calls the
  client again with the error's configuration (lines 383 to 396). An error without a
  configuration is never retried, so its branch below rejects as the last line does.
\<close>

function request :: "adapter \<Rightarrow> config \<Rightarrow> event list \<Rightarrow> outcome \<times> event list" where
  "request adapter config0 w =
     (let config = request_interceptor config0;
          w1 = w @ [Sent config]
      in case adapter (sent_count w) config of
           Inr response \<Rightarrow> (Resolved response, w1)
         | Inl f \<Rightarrow>
             (let err = axios_error config f
              in if shouldRetry err
                 then (case err_config err of
                         None \<Rightarrow> (Failed err, w1)
                       | Some c \<Rightarrow>
                           request adapter (bump c) (w1 @ [Slept (retryDelay (bump c))]))
                 else (Failed err, w1)))"
  by pat_completeness auto

text \<open>
  Each reissue spends one unit of the budget that the request interceptor fixes: the
  attached \<open>maxRetries\<close> minus the attached \<open>retryCount\<close>.
\<close>

definition budget :: "config \<Rightarrow> nat" where
  "budget c = nat (or_default (maxRetries c) 2 - or_default (retryCount c) 0)"

termination request
proof (relation "measure (\<lambda>(a, c, w). budget c)")
  show "wf (measure (\<lambda>(a, c, w). budget c))" by simp
next
  fix adapter :: adapter and config0 w x xa x1 xb x2
  assume x: "x = request_interceptor config0"
    and xb: "xb = axios_error x x1"
    and retry: "shouldRetry xb"
    and cfg: "err_config xb = Some x2"
  from xb cfg have x2: "x2 = x"
    by (cases "fail_config x1") (simp_all add: axios_error_def)
  from retry cfg have "js_less (retryCount x2) (maxRetries x2)"
    by (simp add: shouldRetry_def)
  then have lt: "or_default (retryCount config0) 0 < or_default (maxRetries config0) 2"
    by (simp add: x2 x request_interceptor_def js_less_def)
  have "or_default (maxRetries (bump x2)) 2 = or_default (maxRetries config0) 2"
    by (simp add: x2 x request_interceptor_def bump_def or_default_def split: option.split)
  moreover have "or_default (retryCount (bump x2)) 0 = or_default (retryCount config0) 0 + 1"
    by (simp add: x2 x request_interceptor_def bump_def or_default_def)
  ultimately have "budget (bump x2) < budget config0"
    using lt by (simp add: budget_def)
  then show "((adapter, bump x2, xa @ [Slept (retryDelay (bump x2))]), adapter, config0, w)
       \<in> measure (\<lambda>(a, c, w). budget c)"
    by simp
qed

text \<open>
  The objects the normaliser receives from the transport: a response with its \<open>data\<close> and
  \<open>status\<close>, and an error with the properties it has.
\<close>

definition js_of_response :: "response \<Rightarrow> jsval" where
  "js_of_response r =
     JObj [(ascii ''data'', resp_data r), (ascii ''status'', JNum (resp_status r))]"

definition js_of_error :: "error \<Rightarrow> jsval" where
  "js_of_error e =
     JObj ((case err_message e of None \<Rightarrow> [] | Some m \<Rightarrow> [(ascii ''message'', JStr m)]) @
           (case err_code e of None \<Rightarrow> [] | Some c \<Rightarrow> [(ascii ''code'', JStr c)]) @
           (case err_response e of
              None \<Rightarrow> []
            | Some r \<Rightarrow> [(ascii ''response'', js_of_response r)]))"

definition js_of_outcome :: "outcome \<Rightarrow> settled" where
  "js_of_outcome out =
     (case out of
        Resolved r \<Rightarrow> Fulfilled (js_of_response r)
      | Failed e \<Rightarrow> Rejected (js_of_error e))"

text \<open>\<open>apiClient.post(url, body)\<close>: a fresh configuration without retry fields.\<close>

definition fresh_config :: "jsstring \<Rightarrow> jsval \<Rightarrow> config" where
  "fresh_config url body =
     \<lparr>cfg_method = ascii ''post'', cfg_url = url, cfg_data = body,
      retryCount = None, maxRetries = None, retryDelay = None\<rparr>"

definition post :: "adapter \<Rightarrow> jsstring \<Rightarrow> jsval \<Rightarrow> event list \<Rightarrow> outcome \<times> event list" where
  "post adapter url body w = request adapter (fresh_config url body) w"

text \<open>\<open>handleApiResponse(apiClient.post(url, body))\<close>, the last line of every operation.\<close>

definition api_call ::
  "adapter \<Rightarrow> jsstring \<Rightarrow> jsval \<Rightarrow> event list \<Rightarrow> (jsval + envelope) \<times> event list" where
  "api_call adapter url body w =
     (case post adapter url body w of
        (out, w') \<Rightarrow> (handleApiResponse (js_of_outcome out), w'))"

section \<open>The operations\<close>

text \<open>
  The parameters of an operation are an object whose properties have the types of the
  documentation comments; \<open>None\<close> is a property the caller left out (\<open>undefined\<close>).
\<close>

definition js_str :: "jsstring option \<Rightarrow> jsval" where
  "js_str x = (case x of None \<Rightarrow> JUndefined | Some s \<Rightarrow> JStr s)"

text \<open>
  A parameter of the type number: an integer or NaN. \<open>x < y\<close> on numbers is false as soon
  as one of them is NaN.
\<close>

datatype jsnumber = Num int | NaN

definition js_of_number :: "jsnumber \<Rightarrow> jsval" where
  "js_of_number x = (case x of Num n \<Rightarrow> JNum n | NaN \<Rightarrow> JNaN)"

definition js_num :: "jsnumber option \<Rightarrow> jsval" where
  "js_num x = (case x of None \<Rightarrow> JUndefined | Some n \<Rightarrow> js_of_number n)"

definition num_less :: "jsnumber \<Rightarrow> jsnumber \<Rightarrow> bool" where
  "num_less x y = (case (x, y) of (Num a, Num b) \<Rightarrow> a < b | _ \<Rightarrow> False)"

definition js_bool :: "bool option \<Rightarrow> jsval" where
  "js_bool x = (case x of None \<Rightarrow> JUndefined | Some b \<Rightarrow> JBool b)"

text \<open>\<open>xs.includes(v)\<close> on a list of strings or numbers.\<close>

definition js_includes :: "jsval list \<Rightarrow> jsval \<Rightarrow> bool" where
  "js_includes xs v = (v \<in> set xs)"

text \<open>\<open>if (b) body.k = v\<close>, as the properties it adds to the object under construction.\<close>

definition set_if :: "bool \<Rightarrow> jsstring \<Rightarrow> jsval \<Rightarrow> (jsstring \<times> jsval) list" where
  "set_if b k v = (if b then [(k, v)] else [])"

subsection \<open>The messages of the validation failures\<close>

text \<open>
  The message literals of the source, as code units. In the order below they say: the
  email source is empty; the email source is none of the three; the email type is empty;
  the email type is neither 1 nor 2; sender or recipient is empty; the subject is empty;
  the subject is longer than 500; the page is below 1; the page size is outside 1 to 100;
  no information at all was given; no lookup key was given; the update data is empty.
\<close>

definition msg_source_empty :: jsstring where
  "msg_source_empty = [0x90AE, 0x4EF6, 0x6765, 0x6E90, 0x4E0D, 0x80FD, 0x4E3A, 0x7A7A]"

definition msg_source_invalid :: jsstring where
  "msg_source_invalid =
     [0x90AE, 0x4EF6, 0x6765, 0x6E90, 0x5FC5, 0x987B, 0x4E3A] @
     ascii '' '' @ [0x27] @ ascii ''swpu'' @ [0x27] @ ascii '', '' @
     [0x27] @ ascii ''huel'' @ [0x27] @ ascii '' '' @ [0x6216] @ ascii '' '' @
     [0x27] @ ascii ''892507222'' @ [0x27]"

definition msg_type_empty :: jsstring where
  "msg_type_empty = [0x90AE, 0x4EF6, 0x7C7B, 0x578B, 0x4E0D, 0x80FD, 0x4E3A, 0x7A7A]"

definition msg_type_invalid :: jsstring where
  "msg_type_invalid =
     [0x90AE, 0x4EF6, 0x7C7B, 0x578B, 0x5FC5, 0x987B, 0x4E3A, 0x0020, 0x0031, 0xFF08,
      0x53D1, 0x4EF6, 0xFF09, 0x6216, 0x0020, 0x0032, 0xFF08, 0x6536, 0x4EF6, 0xFF09]"

definition msg_address_empty :: jsstring where
  "msg_address_empty =
     [0x53D1, 0x4EF6, 0x4EBA, 0x548C, 0x6536, 0x4EF6, 0x4EBA, 0x90AE, 0x7BB1, 0x4E0D,
      0x80FD, 0x4E3A, 0x7A7A]"

definition msg_subject_empty :: jsstring where
  "msg_subject_empty = [0x90AE, 0x4EF6, 0x4E3B, 0x9898, 0x4E0D, 0x80FD, 0x4E3A, 0x7A7A]"

definition msg_subject_long :: jsstring where
  "msg_subject_long =
     [0x90AE, 0x4EF6, 0x4E3B, 0x9898, 0x957F, 0x5EA6, 0x4E0D, 0x80FD, 0x8D85, 0x8FC7,
      0x0035, 0x0030, 0x0030, 0x5B57, 0x7B26]"

definition msg_page :: jsstring where
  "msg_page = [0x9875, 0x7801, 0x5FC5, 0x987B, 0x5927, 0x4E8E, 0x7B49, 0x4E8E, 0x0031]"

definition msg_pageSize :: jsstring where
  "msg_pageSize =
     [0x6BCF, 0x9875, 0x6570, 0x91CF, 0x5FC5, 0x987B, 0x5728, 0x0031, 0x002D, 0x0031,
      0x0030, 0x0030, 0x4E4B, 0x95F4]"

definition msg_no_information :: jsstring where
  "msg_no_information =
     [0x81F3, 0x5C11, 0x9700, 0x8981, 0x63D0, 0x4F9B, 0x4E00, 0x9879, 0x4FE1, 0x606F]"

definition msg_no_lookup_key :: jsstring where
  "msg_no_lookup_key =
     [0x5FC5, 0x987B, 0x63D0, 0x4F9B] @ ascii '' _id'' @ [0x3001] @ ascii ''username '' @
     [0x6216] @ ascii '' reg_backup_email '' @
     [0x5176, 0x4E2D, 0x4E4B, 0x4E00, 0x4F5C, 0x4E3A, 0x67E5, 0x627E, 0x6761, 0x4EF6]"

definition msg_update_empty :: jsstring where
  "msg_update_empty = [0x66F4, 0x65B0, 0x6570, 0x636E, 0x4E0D, 0x80FD, 0x4E3A, 0x7A7A]"

subsection \<open>The email module\<close>

record email_params =
  email_source :: "jsstring option"
  email_type :: "jsnumber option"
  sender_email :: "jsstring option"
  recipient_email :: "jsstring option"
  subject :: "jsstring option"
  sender_name :: "jsstring option"
  content :: "jsstring option"
  email_id :: "jsstring option"
  mail_time :: "jsnumber option"
  page :: "jsnumber option"
  pageSize :: "jsnumber option"

definition email_sources :: "jsval list" where
  "email_sources = [JStr (ascii ''swpu''), JStr (ascii ''huel''), JStr (ascii ''892507222'')]"

definition email_types :: "jsval list" where
  "email_types = [JNum 1, JNum 2]"

text \<open>\<open>subject.length > 500\<close>; the line is reached with a string only.\<close>

definition longer_than :: "jsstring option \<Rightarrow> nat \<Rightarrow> bool" where
  "longer_than x n = (case x of None \<Rightarrow> False | Some s \<Rightarrow> n < length s)"

text \<open>\<open>addEmail\<close>: the request body of lines 98 to 110, and the function.\<close>

definition addEmail_requestBody :: "email_params \<Rightarrow> jsval" where
  "addEmail_requestBody emailData =
     JObj ([(ascii ''email_source'', js_str (email_source emailData)),
            (ascii ''email_type'', js_num (email_type emailData)),
            (ascii ''sender_email'', js_str (sender_email emailData)),
            (ascii ''recipient_email'', js_str (recipient_email emailData)),
            (ascii ''subject'', js_str (subject emailData))] @
           set_if (truthy (js_str (sender_name emailData)))
             (ascii ''sender_name'') (js_str (sender_name emailData)) @
           set_if (truthy (js_str (content emailData)))
             (ascii ''content'') (js_str (content emailData)) @
           set_if (truthy (js_str (email_id emailData)))
             (ascii ''email_id'') (js_str (email_id emailData)) @
           set_if (truthy (js_num (mail_time emailData)))
             (ascii ''mail_time'') (js_num (mail_time emailData)))"

definition addEmail ::
  "adapter \<Rightarrow> email_params \<Rightarrow> event list \<Rightarrow> (jsval + envelope) \<times> event list" where
  "addEmail adapter emailData w =
     (if \<not> truthy (js_str (email_source emailData))
      then (Inr (failed (JStr msg_source_empty)), w)
      else if \<not> js_includes email_sources (js_str (email_source emailData))
      then (Inr (failed (JStr msg_source_invalid)), w)
      else if \<not> truthy (js_num (email_type emailData))
      then (Inr (failed (JStr msg_type_empty)), w)
      else if \<not> js_includes email_types (js_num (email_type emailData))
      then (Inr (failed (JStr msg_type_invalid)), w)
      else if \<not> truthy (js_str (sender_email emailData)) \<or>
              \<not> truthy (js_str (recipient_email emailData))
      then (Inr (failed (JStr msg_address_empty)), w)
      else if \<not> truthy (js_str (subject emailData))
      then (Inr (failed (JStr msg_subject_empty)), w)
      else if longer_than (subject emailData) 500
      then (Inr (failed (JStr msg_subject_long)), w)
      else api_call adapter (ascii ''/email/addEmail'') (addEmail_requestBody emailData) w)"

text \<open>\<open>getLatestEmail\<close>, lines 145 to 183.\<close>

definition getLatestEmail ::
  "adapter \<Rightarrow> email_params \<Rightarrow> event list \<Rightarrow> (jsval + envelope) \<times> event list" where
  "getLatestEmail adapter params w =
     (if \<not> truthy (js_str (email_source params))
      then (Inr (failed (JStr msg_source_empty)), w)
      else if \<not> js_includes email_sources (js_str (email_source params))
      then (Inr (failed (JStr msg_source_invalid)), w)
      else if \<not> truthy (js_num (email_type params))
      then (Inr (failed (JStr msg_type_empty)), w)
      else if \<not> js_includes email_types (js_num (email_type params))
      then (Inr (failed (JStr msg_type_invalid)), w)
      else api_call adapter (ascii ''/email/getLatestEmail'')
             (JObj [(ascii ''email_source'', js_str (email_source params)),
                    (ascii ''email_type'', js_num (email_type params))]) w)"

text \<open>
  \<open>queryEmails\<close>, lines 231 to 300. The destructuring gives \<open>page\<close> and \<open>pageSize\<close> the
  defaults 1 and 20 when the caller left them out.
\<close>

definition page_of :: "email_params \<Rightarrow> jsnumber" where
  "page_of params = (case page params of None \<Rightarrow> Num 1 | Some n \<Rightarrow> n)"

definition pageSize_of :: "email_params \<Rightarrow> jsnumber" where
  "pageSize_of params = (case pageSize params of None \<Rightarrow> Num 20 | Some n \<Rightarrow> n)"

definition queryEmails_requestBody :: "email_params \<Rightarrow> jsval" where
  "queryEmails_requestBody params =
     JObj ([(ascii ''email_source'', js_str (email_source params)),
            (ascii ''email_type'', js_num (email_type params)),
            (ascii ''page'', js_of_number (page_of params)),
            (ascii ''pageSize'', js_of_number (pageSize_of params))] @
           set_if (truthy (js_str (recipient_email params)))
             (ascii ''recipient_email'') (js_str (recipient_email params)) @
           set_if (truthy (js_str (sender_email params)))
             (ascii ''sender_email'') (js_str (sender_email params)) @
           set_if (truthy (js_str (subject params)))
             (ascii ''subject'') (js_str (subject params)))"

definition queryEmails ::
  "adapter \<Rightarrow> email_params \<Rightarrow> event list \<Rightarrow> (jsval + envelope) \<times> event list" where
  "queryEmails adapter params w =
     (if \<not> truthy (js_str (email_source params))
      then (Inr (failed (JStr msg_source_empty)), w)
      else if \<not> js_includes email_sources (js_str (email_source params))
      then (Inr (failed (JStr msg_source_invalid)), w)
      else if \<not> truthy (js_num (email_type params))
      then (Inr (failed (JStr msg_type_empty)), w)
      else if \<not> js_includes email_types (js_num (email_type params))
      then (Inr (failed (JStr msg_type_invalid)), w)
      else if num_less (page_of params) (Num 1)
      then (Inr (failed (JStr msg_page)), w)
      else if num_less (pageSize_of params) (Num 1) \<or> num_less (Num 100) (pageSize_of params)
      then (Inr (failed (JStr msg_pageSize)), w)
      else api_call adapter (ascii ''/email/queryEmails'') (queryEmails_requestBody params) w)"

subsection \<open>The email account module\<close>

text \<open>The properties \<open>_id\<close> and \<open>notes\<close> of the source are the fields \<open>record_id\<close> and
  \<open>notes_text\<close>.\<close>

record account_params =
  record_id :: "jsstring option"
  username :: "jsstring option"
  password :: "jsstring option"
  reg_name :: "jsstring option"
  reg_id_card :: "jsstring option"
  reg_backup_email :: "jsstring option"
  reg_phone :: "jsstring option"
  notes_text :: "jsstring option"
  is_sold :: "bool option"
  updateData :: "(jsstring \<times> jsval) list option"

text \<open>\<open>addEmailAccount\<close>, lines 62 to 103; \<open>is_sold\<close> has the default \<open>false\<close>.\<close>

definition is_sold_of :: "account_params \<Rightarrow> jsval" where
  "is_sold_of accountData = (case is_sold accountData of None \<Rightarrow> JBool False | Some b \<Rightarrow> JBool b)"

definition addEmailAccount_requestData :: "account_params \<Rightarrow> jsval" where
  "addEmailAccount_requestData accountData =
     JObj (set_if (js_str (username accountData) \<noteq> JUndefined)
             (ascii ''username'') (js_str (username accountData)) @
           set_if (js_str (password accountData) \<noteq> JUndefined)
             (ascii ''password'') (js_str (password accountData)) @
           set_if (js_str (reg_name accountData) \<noteq> JUndefined)
             (ascii ''reg_name'') (js_str (reg_name accountData)) @
           set_if (js_str (reg_id_card accountData) \<noteq> JUndefined)
             (ascii ''reg_id_card'') (js_str (reg_id_card accountData)) @
           set_if (js_str (reg_backup_email accountData) \<noteq> JUndefined)
             (ascii ''reg_backup_email'') (js_str (reg_backup_email accountData)) @
           set_if (js_str (reg_phone accountData) \<noteq> JUndefined)
             (ascii ''reg_phone'') (js_str (reg_phone accountData)) @
           set_if (js_str (notes_text accountData) \<noteq> JUndefined)
             (ascii ''notes'') (js_str (notes_text accountData)) @
           set_if (is_sold_of accountData \<noteq> JUndefined)
             (ascii ''is_sold'') (is_sold_of accountData))"

definition addEmailAccount ::
  "adapter \<Rightarrow> account_params \<Rightarrow> event list \<Rightarrow> (jsval + envelope) \<times> event list" where
  "addEmailAccount adapter accountData w =
     (if \<not> truthy (js_str (username accountData)) \<and>
         \<not> truthy (js_str (password accountData)) \<and>
         \<not> truthy (js_str (reg_name accountData)) \<and>
         \<not> truthy (js_str (reg_id_card accountData)) \<and>
         \<not> truthy (js_str (reg_backup_email accountData)) \<and>
         \<not> truthy (js_str (reg_phone accountData)) \<and>
         \<not> truthy (js_str (notes_text accountData))
      then (Inr (failed (JStr msg_no_information)), w)
      else api_call adapter (ascii ''/emailAccountAdmin/addEmailAccount'')
             (addEmailAccount_requestData accountData) w)"

text \<open>
  \<open>updateEmailAccount\<close>, lines 173 to 207. \<open>filteredData\<close> is the copy of \<open>updateData\<close>
  after the two \<open>delete\<close> statements.
\<close>

definition delete_key :: "jsstring \<Rightarrow> (jsstring \<times> jsval) list \<Rightarrow> (jsstring \<times> jsval) list" where
  "delete_key k kvs = filter (\<lambda>kv. fst kv \<noteq> k) kvs"

definition filteredData :: "(jsstring \<times> jsval) list \<Rightarrow> (jsstring \<times> jsval) list" where
  "filteredData ud = delete_key (ascii ''create_date'') (delete_key (ascii ''_id'') ud)"

definition updateEmailAccount_requestData ::
  "account_params \<Rightarrow> (jsstring \<times> jsval) list \<Rightarrow> jsval" where
  "updateEmailAccount_requestData params ud =
     JObj ([(ascii ''updateData'', JObj (filteredData ud))] @
           set_if (truthy (js_str (record_id params)))
             (ascii ''_id'') (js_str (record_id params)) @
           set_if (truthy (js_str (username params)))
             (ascii ''username'') (js_str (username params)) @
           set_if (truthy (js_str (reg_backup_email params)))
             (ascii ''reg_backup_email'') (js_str (reg_backup_email params)))"

definition updateEmailAccount ::
  "adapter \<Rightarrow> account_params \<Rightarrow> event list \<Rightarrow> (jsval + envelope) \<times> event list" where
  "updateEmailAccount adapter params w =
     (if \<not> truthy (js_str (record_id params)) \<and>
         \<not> truthy (js_str (username params)) \<and>
         \<not> truthy (js_str (reg_backup_email params))
      then (Inr (failed (JStr msg_no_lookup_key)), w)
      else (case updateData params of
              None \<Rightarrow> (Inr (failed (JStr msg_update_empty)), w)
            | Some ud \<Rightarrow>
                if length ud = 0
                then (Inr (failed (JStr msg_update_empty)), w)
                else api_call adapter (ascii ''/emailAccountAdmin/updateEmailAccount'')
                       (updateEmailAccount_requestData params ud) w))"

section \<open>The statements of the specification\<close>

text \<open>
  The envelope the specification gives for a resolved call, in its own words: success with
  the body's \<open>data\<close> when \<open>errCode\<close> is 0, otherwise a failure with the body's \<open>errMsg\<close>,
  or with the generic message when \<open>errMsg\<close> is absent.
\<close>

definition claimed_resolved :: "jsval \<Rightarrow> envelope" where
  "claimed_resolved body =
     (if opt_member body (ascii ''errCode'') = JNum 0
      then succeeded (opt_member body (ascii ''data''))
      else failed (if opt_member body (ascii ''errMsg'') = JUndefined then JStr unknown_error
                   else opt_member body (ascii ''errMsg'')))"

text \<open>
  The error text the specification gives for a rejected call: the \<open>errMsg\<close> of the body of
  the error's response, else the error's own message, else the generic message.
\<close>

definition rejection_text :: "jsval \<Rightarrow> jsval" where
  "rejection_text e =
     (let errMsg = opt_member (opt_member (opt_member e (ascii ''response'')) (ascii ''data''))
                     (ascii ''errMsg'');
          message = opt_member e (ascii ''message'')
      in if truthy errMsg then errMsg
         else if truthy message then message
         else JStr unknown_error)"

text \<open>The six error codes of network failures that the retry decision names.\<close>

definition network_codes :: "jsstring list" where
  "network_codes = [ascii ''ECONNABORTED'', ascii ''ETIMEDOUT'', ascii ''ECONNRESET'',
                    ascii ''ENOTFOUND'', ascii ''EAI_AGAIN'', ascii ''ENETUNREACH'']"

text \<open>A dispatch that fails without a response, as an AxiosError reports it.\<close>

definition no_response :: "failure + response \<Rightarrow> bool" where
  "no_response x =
     (case x of Inl f \<Rightarrow> fail_response f = None \<and> fail_config f | Inr r \<Rightarrow> False)"

text \<open>
  The effects of a call whose attempts all fail and are all retried: attempt \<open>i\<close> is sent
  with the counter \<open>i\<close>, and a delay of \<open>retryDelay\<close> separates it from the next one.
\<close>

fun retry_trace :: "config \<Rightarrow> int \<Rightarrow> nat \<Rightarrow> event list" where
  "retry_trace c i 0 = [Sent (c\<lparr>retryCount := Some i\<rparr>)]"
| "retry_trace c i (Suc n) =
     Sent (c\<lparr>retryCount := Some i\<rparr>) # Slept (retryDelay c) # retry_trace c (i + 1) n"

text \<open>
  The invariant of the result envelope, as the specification states it: a success has no
  \<open>error\<close> and has \<open>data\<close>; a failure has an \<open>error\<close> that is a string.
\<close>

definition is_string :: "jsval \<Rightarrow> bool" where
  "is_string v = (case v of JStr s \<Rightarrow> True | _ \<Rightarrow> False)"

definition envelope_ok :: "envelope \<Rightarrow> bool" where
  "envelope_ok env =
     (if success env then error env = None \<and> data env \<noteq> None
      else (case error env of None \<Rightarrow> False | Some v \<Rightarrow> is_string v))"

text \<open>
  The backend response shape of the specification gives \<open>errMsg\<close> the type string. A body
  conforms when its \<open>errMsg\<close> is a string, absent or otherwise falsy; a dispatch conforms
  when the body of its response, if there is a response, does.
\<close>

definition errMsg_ok :: "jsval \<Rightarrow> bool" where
  "errMsg_ok body =
     (\<not> truthy (opt_member body (ascii ''errMsg'')) \<or>
      is_string (opt_member body (ascii ''errMsg'')))"

definition conforming :: "failure + response \<Rightarrow> bool" where
  "conforming x =
     (case x of
        Inr r \<Rightarrow> errMsg_ok (resp_data r)
      | Inl f \<Rightarrow> (case fail_response f of None \<Rightarrow> True | Some r \<Rightarrow> errMsg_ok (resp_data r)))"

text \<open>
  The result of an operation keeps the invariant: it is an envelope, the envelope is
  well formed, and the \<open>data\<close> of a success is the \<open>data\<close> field of a body that the
  network answered with.
\<close>

definition invariant_holds :: "adapter \<Rightarrow> (jsval + envelope) \<times> event list \<Rightarrow> bool" where
  "invariant_holds adapter res =
     (case fst res of
        Inl t \<Rightarrow> False
      | Inr env \<Rightarrow>
          envelope_ok env \<and>
          (success env \<longrightarrow>
             (\<exists>k c r. adapter k c = Inr r \<and>
                data env = Some (opt_member (resp_data r) (ascii ''data'')))))"

text \<open>
  The malformed inputs of \<open>queryEmails\<close> that the specification lists: the source is missing
  or none of the three, the type is neither 1 nor 2, the page is below 1, the page size is
  outside 1 to 100 (as NaN is). The messages of \<open>queryEmails\<close> follow.
\<close>

definition malformed_query :: "email_params \<Rightarrow> bool" where
  "malformed_query params =
     (email_source params = None \<or>
      js_str (email_source params) \<notin> set email_sources \<or>
      js_num (email_type params) \<notin> set email_types \<or>
      (case page params of Some (Num n) \<Rightarrow> n < 1 | _ \<Rightarrow> False) \<or>
      (case pageSize params of
         None \<Rightarrow> False
       | Some (Num n) \<Rightarrow> n < 1 \<or> 100 < n
       | Some NaN \<Rightarrow> True))"

definition query_messages :: "jsstring list" where
  "query_messages =
     [msg_source_empty, msg_source_invalid, msg_type_empty, msg_type_invalid, msg_page,
      msg_pageSize]"

text \<open>
  The request bodies that a call has put on the network, in order, and the value of a field
  of a body (\<open>None\<close> when the body has no such key).
\<close>

fun bodies :: "event list \<Rightarrow> jsval list" where
  "bodies [] = []"
| "bodies (Sent c # w) = cfg_data c # bodies w"
| "bodies (Slept d # w) = bodies w"

definition field :: "jsval \<Rightarrow> jsstring \<Rightarrow> jsval option" where
  "field b k = (case b of JObj kvs \<Rightarrow> map_of kvs k | _ \<Rightarrow> None)"

text \<open>
  The two ways in which the operations forward an optional parameter: when it is truthy,
  or when it is not \<open>undefined\<close>.
\<close>

definition when_truthy :: "jsval \<Rightarrow> jsval option" where
  "when_truthy v = (if truthy v then Some v else None)"

definition when_defined :: "jsval \<Rightarrow> jsval option" where
  "when_defined v = (if v = JUndefined then None else Some v)"

section \<open>Concrete networks and calls\<close>

text \<open>A network on which every attempt times out.\<close>

definition timeout_adapter :: adapter where
  "timeout_adapter k c =
     Inl \<lparr>fail_code = Some (ascii ''ECONNABORTED''),
          fail_message = Some (ascii ''timeout of 60000ms exceeded''),
          fail_response = None, fail_config = True\<rparr>"

text \<open>
  A proxy that answers every request with the status 502 while the error carries the
  code of a connection reset.
\<close>

definition proxy_adapter :: adapter where
  "proxy_adapter k c =
     Inl \<lparr>fail_code = Some (ascii ''ECONNRESET''),
          fail_message = Some (ascii ''Request failed with status code 502''),
          fail_response = Some \<lparr>resp_status = 502, resp_data = JStr (ascii ''upstream unavailable'')\<rparr>,
          fail_config = True\<rparr>"

text \<open>A backend that rejects every request with the error code 401 and a message.\<close>

definition denying_adapter :: adapter where
  "denying_adapter k c =
     Inl \<lparr>fail_code = Some (ascii ''ERR_BAD_REQUEST''),
          fail_message = Some (ascii ''Request failed with status code 401''),
          fail_response =
            Some \<lparr>resp_status = 401,
                  resp_data = JObj [(ascii ''errCode'', JNum 401),
                                    (ascii ''errMsg'', JStr (ascii ''unauthorized''))]\<rparr>,
          fail_config = True\<rparr>"

text \<open>A backend that answers every request with the error code 1 and the number 5 as message.\<close>

definition numeric_adapter :: adapter where
  "numeric_adapter k c =
     Inr \<lparr>resp_status = 200,
          resp_data = JObj [(ascii ''errCode'', JNum 1), (ascii ''errMsg'', JNum 5)]\<rparr>"

text \<open>A backend that answers every request with a success and a record id.\<close>

definition accepting_adapter :: adapter where
  "accepting_adapter k c =
     Inr \<lparr>resp_status = 200,
          resp_data = JObj [(ascii ''errCode'', JNum 0),
                            (ascii ''errMsg'', JStr (ascii ''success'')),
                            (ascii ''data'', JObj [(ascii ''_id'', JStr (ascii ''id1''))])]\<rparr>"

text \<open>
  Parameters of calls: an account with a user name only, an update, an email, a valid
  query for the latest email, a query whose page size is NaN, a query of the type 3.
\<close>

definition only_username :: account_params where
  "only_username =
     \<lparr>record_id = None, username = Some (ascii ''test@kmmu.edu.cn''), password = None,
      reg_name = None, reg_id_card = None, reg_backup_email = None, reg_phone = None,
      notes_text = None, is_sold = None, updateData = None\<rparr>"

definition update_example :: account_params where
  "update_example =
     \<lparr>record_id = Some (ascii ''507f1f77bcf86cd799439011''), username = None, password = None,
      reg_name = None, reg_id_card = None, reg_backup_email = None, reg_phone = None,
      notes_text = None, is_sold = None,
      updateData = Some [(ascii ''_id'', JStr (ascii ''other'')),
                         (ascii ''username'', JStr (ascii ''success@kmmu.edu.cn'')),
                         (ascii ''create_date'', JNum 1700000000000),
                         (ascii ''is_sold'', JBool True)]\<rparr>"

definition email_example :: email_params where
  "email_example =
     \<lparr>email_source = Some (ascii ''huel''), email_type = Some (Num 2),
      sender_email = Some (ascii ''noreply@service.com''),
      recipient_email = Some (ascii ''user@huel.edu.cn''),
      subject = Some (ascii ''code''), sender_name = None,
      content = Some (ascii ''123456''), email_id = None, mail_time = None,
      page = None, pageSize = None\<rparr>"

definition latest_example :: email_params where
  "latest_example =
     \<lparr>email_source = Some (ascii ''huel''), email_type = Some (Num 2), sender_email = None,
      recipient_email = None, subject = None, sender_name = None, content = None,
      email_id = None, mail_time = None, page = None, pageSize = None\<rparr>"

definition query_nan :: email_params where
  "query_nan =
     \<lparr>email_source = Some (ascii ''huel''), email_type = Some (Num 2), sender_email = None,
      recipient_email = None, subject = None, sender_name = None, content = None,
      email_id = None, mail_time = None, page = None, pageSize = Some NaN\<rparr>"

definition query_type3 :: email_params where
  "query_type3 =
     \<lparr>email_source = Some (ascii ''huel''), email_type = Some (Num 3), sender_email = None,
      recipient_email = None, subject = None, sender_name = None, content = None,
      email_id = None, mail_time = None, page = None, pageSize = None\<rparr>"

section \<open>Facts about values\<close>

lemma unat_ascii_unit: "unat (of_nat (of_char c) :: 16 word) = of_char c"
proof -
  have "(of_char c :: nat) < 256" by simp
  then have "(of_char c :: nat) < 65536" by linarith
  then show ?thesis by (simp add: unat_of_nat)
qed

lemma ascii_inj [simp]: "(ascii s = ascii t) = (s = t)"
proof -
  have "inj (\<lambda>c::char. (of_nat (of_char c) :: 16 word))"
  proof (rule injI)
    fix x y :: char
    assume "(of_nat (of_char x) :: 16 word) = of_nat (of_char y)"
    then have "unat (of_nat (of_char x) :: 16 word) = unat (of_nat (of_char y) :: 16 word)"
      by simp
    then have "(of_char x :: nat) = of_char y" by (simp only: unat_ascii_unit)
    then show "x = y" by simp
  qed
  then show ?thesis unfolding ascii_def by (simp add: inj_map_eq_map)
qed

lemma ascii_eq_Nil [simp]: "(ascii s = []) = (s = [])"
  by (simp add: ascii_def)

lemma Nil_eq_ascii [simp]: "([] = ascii s) = (s = [])"
  by (simp add: ascii_def)

lemma length_ascii [simp]: "length (ascii s) = length s"
  by (simp add: ascii_def)

lemma member_nullish: "nullish v \<Longrightarrow> member v k = Inl (type_error v k)"
  by (cases v) (simp_all add: nullish_def)

lemma member_not_nullish: "\<not> nullish v \<Longrightarrow> member v k = Inr (opt_member v k)"
  by (cases v) (simp_all add: nullish_def opt_member_def)

lemma opt_member_nullish [simp]:
  "opt_member JUndefined k = JUndefined" "opt_member JNull k = JUndefined"
  by (simp_all add: opt_member_def)

lemma opt_member_obj [simp]:
  "opt_member (JObj kvs) k = (case map_of kvs k of None \<Rightarrow> JUndefined | Some v \<Rightarrow> v)"
  by (simp add: opt_member_def)

lemma type_error_not_nullish [simp]: "\<not> nullish (type_error v k)"
  by (simp add: type_error_def nullish_def)

lemma js_of_error_not_nullish [simp]: "\<not> nullish (js_of_error e)"
  by (simp add: js_of_error_def nullish_def)

lemma js_of_response_not_nullish [simp]: "\<not> nullish (js_of_response r)"
  by (simp add: js_of_response_def nullish_def)

section \<open>The normaliser\<close>

lemma handleApiResponse_rejected: "handleApiResponse (Rejected x) = catch_block x"
  by (simp add: handleApiResponse_def try_block_def)

lemma catch_block_not_nullish:
  "\<not> nullish e \<Longrightarrow> catch_block e = Inr (failed (rejection_text e))"
  by (simp add: catch_block_def rejection_text_def member_not_nullish Let_def)

lemma try_block_throws_not_nullish:
  "try_block (Fulfilled v) = Inl t \<Longrightarrow> \<not> nullish t"
  by (auto simp: try_block_def split: sum.splits if_splits elim!: member.elims)

lemma handleApiResponse_fulfilled_returns:
  "\<exists>env. handleApiResponse (Fulfilled v) = Inr env"
proof (cases "try_block (Fulfilled v)")
  case (Inl t)
  then show ?thesis
    using try_block_throws_not_nullish [OF Inl]
    by (simp add: handleApiResponse_def catch_block_not_nullish)
next
  case (Inr env)
  then show ?thesis by (simp add: handleApiResponse_def)
qed

lemma resolved_body_envelope:
  assumes "member response (ascii ''data'') = Inr body" and "\<not> nullish body"
  shows "handleApiResponse (Fulfilled response) =
     Inr (if opt_member body (ascii ''errCode'') = JNum 0
          then succeeded (opt_member body (ascii ''data''))
          else failed (if truthy (opt_member body (ascii ''errMsg''))
                       then opt_member body (ascii ''errMsg'')
                       else JStr unknown_error))"
  using assms by (simp add: handleApiResponse_def try_block_def member_not_nullish)

text \<open>
  A promise that rejects with \<open>undefined\<close> or \<open>null\<close> is the one input on which the
  \<open>catch\<close> block itself throws. The transport never rejects with either.
\<close>

lemma handleApiResponse_rejected_nullish:
  "handleApiResponse (Rejected JUndefined) = Inl (type_error JUndefined (ascii ''response''))"
  "handleApiResponse (Rejected JNull) = Inl (type_error JNull (ascii ''response''))"
  by (simp_all add: handleApiResponse_def try_block_def catch_block_def)

text \<open>
  Claim C1, as the code has it: when the promise resolves with a response whose body is
  there, the result is the success envelope with the body's \<open>data\<close> exactly when \<open>errCode\<close>
  is the number 0; otherwise it is the failure envelope whose error is the body's \<open>errMsg\<close>
  when that is truthy (for a string: not empty), and the generic message when \<open>errMsg\<close> is
  absent or falsy.
\<close>

theorem handleApiResponse_resolved:
  assumes "member response (ascii ''data'') = Inr body" and "\<not> nullish body"
  shows "handleApiResponse (Fulfilled response) =
     Inr (if opt_member body (ascii ''errCode'') = JNum 0
          then succeeded (opt_member body (ascii ''data''))
          else failed (if truthy (opt_member body (ascii ''errMsg''))
                       then opt_member body (ascii ''errMsg'')
                       else JStr unknown_error))"
  using assms by (rule resolved_body_envelope)

theorem handleApiResponse_resolved_witness:
  "member (JObj [(ascii ''data'', JObj [(ascii ''errCode'', JNum 0),
                                         (ascii ''data'', JStr (ascii ''id1''))])])
     (ascii ''data'') =
     Inr (JObj [(ascii ''errCode'', JNum 0), (ascii ''data'', JStr (ascii ''id1''))]) \<and>
   \<not> nullish (JObj [(ascii ''errCode'', JNum 0), (ascii ''data'', JStr (ascii ''id1''))]) \<and>
   handleApiResponse
     (Fulfilled (JObj [(ascii ''data'', JObj [(ascii ''errCode'', JNum 0),
                                              (ascii ''data'', JStr (ascii ''id1''))])])) =
     Inr (succeeded (JStr (ascii ''id1'')))"
  using handleApiResponse_resolved
    [of "JObj [(ascii ''data'', JObj [(ascii ''errCode'', JNum 0),
                                      (ascii ''data'', JStr (ascii ''id1''))])]"
        "JObj [(ascii ''errCode'', JNum 0), (ascii ''data'', JStr (ascii ''id1''))]"]
  by (simp add: nullish_def)

text \<open>
  Claim C1 as stated fails on a body whose \<open>errMsg\<close> is present and empty: the claim gives
  the empty \<open>errMsg\<close> as the error, the code gives the generic message.
\<close>

theorem handleApiResponse_empty_errMsg:
  "handleApiResponse
     (Fulfilled (JObj [(ascii ''data'', JObj [(ascii ''errCode'', JNum 1),
                                              (ascii ''errMsg'', JStr [])])]))
   \<noteq> Inr (claimed_resolved (JObj [(ascii ''errCode'', JNum 1), (ascii ''errMsg'', JStr [])]))"
  by (simp add: handleApiResponse_def try_block_def claimed_resolved_def failed_def
      unknown_error_def)

text \<open>
  Claim C3: \<open>handleApiResponse\<close> returns an envelope and throws nothing, whatever the
  promise resolves with (a missing response or body included) and whatever object or
  primitive it rejects with; every error of the transport is such an object. On a
  rejection the envelope is the failure whose error is the \<open>errMsg\<close> of the response
  body, else the error's message, else the generic message.
\<close>

theorem handleApiResponse_never_raises:
  "(\<exists>env. handleApiResponse (Fulfilled v) = Inr env) \<and>
   (\<not> nullish x \<longrightarrow> handleApiResponse (Rejected x) = Inr (failed (rejection_text x))) \<and>
   handleApiResponse (Rejected (js_of_error e)) = Inr (failed (rejection_text (js_of_error e)))"
  by (simp add: handleApiResponse_fulfilled_returns handleApiResponse_rejected
      catch_block_not_nullish)

theorem handleApiResponse_never_raises_witness:
  "(\<exists>env. handleApiResponse (Fulfilled JUndefined) = Inr env) \<and>
   \<not> nullish (JStr []) \<and>
   handleApiResponse (Rejected (JStr [])) = Inr (failed (JStr unknown_error)) \<and>
   handleApiResponse
     (Rejected (js_of_error \<lparr>err_code = None, err_message = None, err_response = None,
                              err_config = None\<rparr>)) =
     Inr (failed (JStr unknown_error))"
  using handleApiResponse_never_raises
    [of JUndefined "JStr []"
        "\<lparr>err_code = None, err_message = None, err_response = None, err_config = None\<rparr>"]
  by (simp add: nullish_def rejection_text_def js_of_error_def opt_member_def)

section \<open>The transport\<close>

declare request.simps [simp del]

lemma or_default_idem [simp]: "or_default (Some (or_default x d)) d = or_default x d"
  by (simp add: or_default_def split: option.split)

lemma or_default_succ [simp]: "or_default (Some (n + 1)) 0 = n + 1"
  by (simp add: or_default_def)

lemma js_less_Some [simp]: "js_less (Some a) (Some b) = (a < b)"
  by (simp add: js_less_def)

lemma request_interceptor_idem [simp]:
  "request_interceptor (request_interceptor c) = request_interceptor c"
  by (simp add: request_interceptor_def)

lemma sent_count_append [simp]: "sent_count (w @ v) = sent_count w + sent_count v"
  by (induction w rule: sent_count.induct) simp_all

lemma shouldRetry_axios_error:
  "shouldRetry (axios_error c f) =
     (fail_config f \<and> js_less (retryCount c) (maxRetries c) \<and>
      (fail_code f \<in> Some ` set network_codes \<or> fail_response f = None))"
  by (auto simp: shouldRetry_def axios_error_def network_codes_def)

lemma request_resolved:
  "adapter (sent_count w) (request_interceptor cfg) = Inr r \<Longrightarrow>
   request adapter cfg w = (Resolved r, w @ [Sent (request_interceptor cfg)])"
  by (subst request.simps) (simp add: Let_def)

lemma request_rejected:
  "adapter (sent_count w) (request_interceptor cfg) = Inl f \<Longrightarrow>
   \<not> shouldRetry (axios_error (request_interceptor cfg) f) \<Longrightarrow>
   request adapter cfg w =
     (Failed (axios_error (request_interceptor cfg) f), w @ [Sent (request_interceptor cfg)])"
  by (subst request.simps) (simp add: Let_def)

lemma request_retried:
  "adapter (sent_count w) (request_interceptor cfg) = Inl f \<Longrightarrow>
   shouldRetry (axios_error (request_interceptor cfg) f) \<Longrightarrow>
   request adapter cfg w =
     request adapter (bump (request_interceptor cfg))
       (w @ [Sent (request_interceptor cfg), Slept (retryDelay (request_interceptor cfg))])"
proof -
  assume a: "adapter (sent_count w) (request_interceptor cfg) = Inl f"
    and r: "shouldRetry (axios_error (request_interceptor cfg) f)"
  from r have "fail_config f" by (simp add: shouldRetry_axios_error)
  then have c: "err_config (axios_error (request_interceptor cfg) f) =
      Some (request_interceptor cfg)"
    by (simp add: axios_error_def)
  show ?thesis
    by (subst request.simps) (simp add: Let_def a r c bump_def)
qed

lemma request_attached: "request adapter (request_interceptor cfg) w = request adapter cfg w"
  by (subst request.simps, subst (2) request.simps) simp

lemma request_interceptor_bump [simp]:
  "request_interceptor (bump (request_interceptor c)) = bump (request_interceptor c)"
  by (simp add: request_interceptor_def bump_def)

lemma retry_trace_bump [simp]: "retry_trace (bump c) i n = retry_trace c i n"
  by (induction n arbitrary: i) (simp_all add: bump_def)

lemma sent_count_retry_trace [simp]: "sent_count (retry_trace c i n) = Suc n"
  by (induction n arbitrary: i) simp_all

lemma set_count_same: "retryCount c = Some i \<Longrightarrow> c\<lparr>retryCount := Some i\<rparr> = c"
  by (cases c) simp

text \<open>
  On a network that never answers, an attached configuration with the counter \<open>R\<close> and
  the bound \<open>M\<close> is sent once and then reissued \<open>M - R\<close> times.
\<close>

lemma request_exhausts:
  assumes fails: "\<forall>k c. no_response (adapter k c)"
  shows "request_interceptor c = c \<Longrightarrow> retryCount c = Some R \<Longrightarrow> maxRetries c = Some M \<Longrightarrow>
    n = nat (M - R) \<Longrightarrow>
    request adapter c w =
      (case adapter (sent_count w + n) (c\<lparr>retryCount := Some (R + int n)\<rparr>) of
         Inl f \<Rightarrow> Failed (axios_error (c\<lparr>retryCount := Some (R + int n)\<rparr>) f)
       | Inr r \<Rightarrow> Resolved r,
       w @ retry_trace c R n)"
proof (induction n arbitrary: c R w)
  case 0
  from fails have "no_response (adapter (sent_count w) c)" by blast
  then obtain f where f: "adapter (sent_count w) c = Inl f"
    by (cases "adapter (sent_count w) c") (simp_all add: no_response_def)
  from 0 have "\<not> R < M" by simp
  then have "\<not> shouldRetry (axios_error c f)"
    using 0 by (simp add: shouldRetry_axios_error)
  then show ?case
    using request_rejected [of adapter w c f] f 0 by (simp add: set_count_same)
next
  case (Suc n)
  from fails have nr: "no_response (adapter (sent_count w) c)" by blast
  then obtain f where f: "adapter (sent_count w) c = Inl f"
    by (cases "adapter (sent_count w) c") (simp_all add: no_response_def)
  from nr f have ff: "fail_response f = None" "fail_config f" by (simp_all add: no_response_def)
  from Suc.prems have lt: "R < M" by simp
  then have retry: "shouldRetry (axios_error c f)"
    using Suc.prems ff by (simp add: shouldRetry_axios_error)
  let ?w = "w @ [Sent c, Slept (retryDelay c)]"
  have step: "request adapter c w = request adapter (bump c) ?w"
    using request_retried [of adapter w c f] f retry Suc.prems(1) by simp
  have attached: "request_interceptor (bump c) = bump c"
    using request_interceptor_bump [of c] Suc.prems(1) by simp
  have rc: "retryCount (bump c) = Some (R + 1)" using Suc.prems by (simp add: bump_def)
  have mr: "maxRetries (bump c) = Some M" using Suc.prems by (simp add: bump_def)
  have n: "n = nat (M - (R + 1))" using Suc.prems by simp
  have e1: "(bump c)\<lparr>retryCount := Some (R + 1 + int n)\<rparr> =
      c\<lparr>retryCount := Some (R + int (Suc n))\<rparr>"
    by (simp add: bump_def add.commute add.left_commute)
  have e2: "sent_count ?w + n = sent_count w + Suc n" by simp
  have e3: "?w @ retry_trace (bump c) (R + 1) n = w @ retry_trace c R (Suc n)"
    using Suc.prems(2) by (simp add: set_count_same)
  show ?case
    unfolding step Suc.IH [OF attached rc mr n, of ?w] e1 e2 e3 ..
qed

text \<open>What the request interceptor attaches, field by field.\<close>

lemma request_interceptor_attaches:
  "retryCount (request_interceptor c) = Some (case retryCount c of None \<Rightarrow> 0 | Some n \<Rightarrow> n) \<and>
   maxRetries (request_interceptor c) =
     Some (case maxRetries c of None \<Rightarrow> 2 | Some n \<Rightarrow> if n = 0 then 2 else n) \<and>
   retryDelay (request_interceptor c) =
     Some (case retryDelay c of None \<Rightarrow> 1000 | Some n \<Rightarrow> if n = 0 then 1000 else n)"
  by (simp add: request_interceptor_def or_default_def split: option.split)

text \<open>
  Claim C4, as the code has it: a failure that carries a response and whose error code is
  none of the six network codes is not retried. The request is sent once, no delay is
  waited, and the normaliser turns the error into a failure envelope.
\<close>

theorem responded_failure_not_retried:
  assumes "adapter (sent_count w) (request_interceptor cfg) = Inl f"
    and "fail_response f \<noteq> None"
    and "fail_code f \<notin> Some ` set network_codes"
  shows "request adapter cfg w =
           (Failed (axios_error (request_interceptor cfg) f), w @ [Sent (request_interceptor cfg)]) \<and>
         handleApiResponse (js_of_outcome (fst (request adapter cfg w))) =
           Inr (failed (rejection_text (js_of_error (axios_error (request_interceptor cfg) f))))"
proof -
  have "\<not> shouldRetry (axios_error (request_interceptor cfg) f)"
    using assms(2,3) by (simp add: shouldRetry_axios_error)
  with request_rejected [of adapter w cfg f] assms(1) show ?thesis
    by (simp add: js_of_outcome_def handleApiResponse_rejected catch_block_not_nullish)
qed

theorem responded_failure_not_retried_witness:
  "fail_response (projl (denying_adapter 0 (request_interceptor (fresh_config (ascii ''/email/addEmail'') JNull)))) \<noteq> None \<and>
   fail_code (projl (denying_adapter 0 (request_interceptor (fresh_config (ascii ''/email/addEmail'') JNull))))
     \<notin> Some ` set network_codes \<and>
   sent_count (snd (request denying_adapter (fresh_config (ascii ''/email/addEmail'') JNull) [])) = 1 \<and>
   handleApiResponse
     (js_of_outcome (fst (request denying_adapter (fresh_config (ascii ''/email/addEmail'') JNull) []))) =
     Inr (failed (JStr (ascii ''unauthorized'')))"
proof -
  let ?cfg = "fresh_config (ascii ''/email/addEmail'') JNull"
  let ?f = "projl (denying_adapter 0 (request_interceptor ?cfg))"
  have a: "denying_adapter (sent_count []) (request_interceptor ?cfg) = Inl ?f"
    by (simp add: denying_adapter_def)
  have b: "fail_response ?f \<noteq> None" by (simp add: denying_adapter_def)
  have c: "fail_code ?f \<notin> Some ` set network_codes"
    by (simp add: denying_adapter_def network_codes_def)
  have d: "rejection_text (js_of_error (axios_error (request_interceptor ?cfg) ?f)) =
      JStr (ascii ''unauthorized'')"
    by (simp add: denying_adapter_def rejection_text_def js_of_error_def js_of_response_def
        axios_error_def Let_def)
  note r = responded_failure_not_retried [of denying_adapter "[]" ?cfg ?f, OF a b c]
  have r1: "request denying_adapter ?cfg [] =
       (Failed (axios_error (request_interceptor ?cfg) ?f), [Sent (request_interceptor ?cfg)])"
    using r [THEN conjunct1] by simp
  have r2: "handleApiResponse (js_of_outcome (fst (request denying_adapter ?cfg []))) =
       Inr (failed (JStr (ascii ''unauthorized'')))"
    using r [THEN conjunct2] by (simp only: d)
  have r3: "sent_count (snd (request denying_adapter ?cfg [])) = 1"
    by (simp add: r1)
  from b c r2 r3 show ?thesis by blast
qed

text \<open>
  Claim C4 as stated fails when the error carries a response together with one of the six
  network codes: the proxy's failure is retried twice, three requests in all.
\<close>

theorem responded_failure_retried:
  "fail_response (projl (proxy_adapter 0 (request_interceptor (fresh_config (ascii ''/email/addEmail'') JNull)))) \<noteq> None \<and>
   sent_count (snd (request proxy_adapter (fresh_config (ascii ''/email/addEmail'') JNull) [])) = 3"
  by (simp add: request.simps proxy_adapter_def fresh_config_def request_interceptor_def
      or_default_def shouldRetry_def axios_error_def bump_def js_less_def Let_def)

text \<open>
  Claim C5: on a network where every attempt fails without a response, a request whose
  attached counter is 0 and whose attached \<open>maxRetries\<close> is \<open>m\<close> is sent \<open>1 + m\<close> times; the
  counter goes up by one and \<open>retryDelay\<close> is waited before each reissue, and the call
  rejects with the error of the last attempt as the network reported it.
\<close>

theorem retries_exhausted:
  assumes "\<forall>k c. no_response (adapter k c)"
    and "or_default (retryCount cfg) 0 = 0"
    and "m = or_default (maxRetries cfg) 2"
    and "final = (request_interceptor cfg)\<lparr>retryCount := Some (int (nat m))\<rparr>"
  shows "\<exists>f. adapter (sent_count w + nat m) final = Inl f \<and> fail_response f = None \<and>
           request adapter cfg w =
             (Failed (axios_error final f), w @ retry_trace (request_interceptor cfg) 0 (nat m)) \<and>
           sent_count (snd (request adapter cfg w)) = sent_count w + (1 + nat m)"
proof -
  let ?c = "request_interceptor cfg"
  from assms(1) have "no_response (adapter (sent_count w + nat m) final)" by blast
  then obtain f where f: "adapter (sent_count w + nat m) final = Inl f" "fail_response f = None"
    by (cases "adapter (sent_count w + nat m) final") (simp_all add: no_response_def)
  have rc: "retryCount ?c = Some 0" using assms(2) by (simp add: request_interceptor_def)
  have mr: "maxRetries ?c = Some m" using assms(3) by (simp add: request_interceptor_def)
  have "request adapter ?c w =
      (case adapter (sent_count w + nat m) (?c\<lparr>retryCount := Some (0 + int (nat m))\<rparr>) of
         Inl f \<Rightarrow> Failed (axios_error (?c\<lparr>retryCount := Some (0 + int (nat m))\<rparr>) f)
       | Inr r \<Rightarrow> Resolved r,
       w @ retry_trace ?c 0 (nat m))"
    by (rule request_exhausts [OF assms(1) _ rc mr]) simp_all
  then have "request adapter cfg w = (Failed (axios_error final f), w @ retry_trace ?c 0 (nat m))"
    using f assms(4) by (simp add: request_attached)
  with f show ?thesis by simp
qed

theorem retries_exhausted_witness:
  "(\<forall>k c. no_response (timeout_adapter k c)) \<and>
   or_default (retryCount (fresh_config (ascii ''/email/getLatestEmail'') JNull)) 0 = 0 \<and>
   or_default (maxRetries (fresh_config (ascii ''/email/getLatestEmail'') JNull)) 2 = 2 \<and>
   sent_count (snd (request timeout_adapter (fresh_config (ascii ''/email/getLatestEmail'') JNull) [])) = 3 \<and>
   handleApiResponse
     (js_of_outcome
        (fst (request timeout_adapter (fresh_config (ascii ''/email/getLatestEmail'') JNull) []))) =
     Inr (failed (JStr (ascii ''timeout of 60000ms exceeded'')))"
proof -
  let ?cfg = "fresh_config (ascii ''/email/getLatestEmail'') JNull"
  have a: "\<forall>k c. no_response (timeout_adapter k c)"
    by (simp add: no_response_def timeout_adapter_def)
  have b: "or_default (retryCount ?cfg) 0 = 0"
    by (simp add: fresh_config_def or_default_def)
  have c: "or_default (maxRetries ?cfg) 2 = 2"
    by (simp add: fresh_config_def or_default_def)
  from retries_exhausted [OF a b c [symmetric] refl, of "[]"] obtain f where
    f: "timeout_adapter (sent_count [] + nat 2)
          ((request_interceptor ?cfg)\<lparr>retryCount := Some (int (nat 2))\<rparr>) = Inl f"
    and r: "request timeout_adapter ?cfg [] =
          (Failed (axios_error ((request_interceptor ?cfg)\<lparr>retryCount := Some (int (nat 2))\<rparr>) f),
           [] @ retry_trace (request_interceptor ?cfg) 0 (nat 2))"
    and n: "sent_count (snd (request timeout_adapter ?cfg [])) = sent_count [] + (1 + nat 2)"
    by blast
  from f have f': "f = \<lparr>fail_code = Some (ascii ''ECONNABORTED''),
      fail_message = Some (ascii ''timeout of 60000ms exceeded''),
      fail_response = None, fail_config = True\<rparr>"
    by (simp add: timeout_adapter_def)
  have e: "handleApiResponse (js_of_outcome (fst (request timeout_adapter ?cfg []))) =
      Inr (failed (JStr (ascii ''timeout of 60000ms exceeded'')))"
    by (simp add: r js_of_outcome_def handleApiResponse_rejected catch_block_not_nullish)
       (simp add: f' rejection_text_def js_of_error_def axios_error_def Let_def)
  from n have n': "sent_count (snd (request timeout_adapter ?cfg [])) = 3" by simp
  from a b c n' e show ?thesis by blast
qed

text \<open>
  Claim C6 at a request that carries \<open>maxRetries: 0\<close> and \<open>retryDelay: 0\<close>: the request
  interceptor replaces both by the defaults 2 and 1000.
\<close>

theorem request_interceptor_zero:
  "maxRetries (request_interceptor (c\<lparr>maxRetries := Some 0\<rparr>)) = Some 2 \<and>
   retryDelay (request_interceptor (c\<lparr>retryDelay := Some 0\<rparr>)) = Some 1000"
  by (simp add: request_interceptor_def or_default_def)

section \<open>Induction over the retry loop\<close>

text \<open>
  One case for each way in which a call of the client ends or goes on: the response is
  returned, the error is rejected, or the request is reissued.
\<close>

lemma request_induct [case_names resolved rejected retried]:
  fixes adapter :: adapter
  assumes "\<And>cfg w r. adapter (sent_count w) (request_interceptor cfg) = Inr r \<Longrightarrow> P cfg w"
    and "\<And>cfg w f. adapter (sent_count w) (request_interceptor cfg) = Inl f \<Longrightarrow>
           \<not> shouldRetry (axios_error (request_interceptor cfg) f) \<Longrightarrow> P cfg w"
    and "\<And>cfg w f. adapter (sent_count w) (request_interceptor cfg) = Inl f \<Longrightarrow>
           shouldRetry (axios_error (request_interceptor cfg) f) \<Longrightarrow>
           P (bump (request_interceptor cfg))
             (w @ [Sent (request_interceptor cfg), Slept (retryDelay (request_interceptor cfg))]) \<Longrightarrow>
           P cfg w"
  shows "P cfg w"
proof -
  have "a = adapter \<Longrightarrow> P cfg w" for a
  proof (induction a cfg w rule: request.induct)
    case (1 a config0 w)
    note a = \<open>a = adapter\<close>
    show ?case
    proof (cases "adapter (sent_count w) (request_interceptor config0)")
      case (Inr r)
      then show ?thesis by (rule assms(1))
    next
      case (Inl f)
      show ?thesis
      proof (cases "shouldRetry (axios_error (request_interceptor config0) f)")
        case False
        with Inl show ?thesis by (rule assms(2))
      next
        case True
        then have "fail_config f" by (simp add: shouldRetry_axios_error)
        then have c: "err_config (axios_error (request_interceptor config0) f) =
            Some (request_interceptor config0)"
          by (simp add: axios_error_def)
        from Inl a have Inl': "a (sent_count w) (request_interceptor config0) = Inl f" by simp
        have "P (bump (request_interceptor config0))
                ((w @ [Sent (request_interceptor config0)]) @
                 [Slept (retryDelay (bump (request_interceptor config0)))])"
          by (rule "1.IH" [OF refl refl Inl' refl True c a])
        then show ?thesis
          using assms(3) [OF Inl True] by (simp add: bump_def)
      qed
    qed
  qed
  then show ?thesis by simp
qed

text \<open>
  Every outcome of a call is something the network answered: a response as it is, an
  error built from a failure.
\<close>

lemma request_provenance:
  "(\<forall>r. fst (request adapter cfg w) = Resolved r \<longrightarrow> (\<exists>k c. adapter k c = Inr r)) \<and>
   (\<forall>e. fst (request adapter cfg w) = Failed e \<longrightarrow>
      (\<exists>k c f. adapter k c = Inl f \<and> e = axios_error c f))"
proof (induction cfg w rule: request_induct [where adapter = adapter])
  case (resolved cfg w r)
  then show ?case using request_resolved [of adapter w cfg r] by auto
next
  case (rejected cfg w f)
  then show ?case using request_rejected [of adapter w cfg f] by auto
next
  case (retried cfg w f)
  then show ?case using request_retried [of adapter w cfg f] by simp
qed

text \<open>On a network that does not change with time, the outcome does not depend on the trace.\<close>

lemma request_time_independent:
  "fst (request (\<lambda>k. backend) cfg w') = fst (request (\<lambda>k. backend) cfg w)"
proof (induction cfg w arbitrary: w' rule: request_induct [where adapter = "\<lambda>k. backend"])
  case (resolved cfg w r)
  then show ?case
    using request_resolved [of "\<lambda>k. backend" w cfg r] request_resolved [of "\<lambda>k. backend" w' cfg r]
    by simp
next
  case (rejected cfg w f)
  then show ?case
    using request_rejected [of "\<lambda>k. backend" w cfg f] request_rejected [of "\<lambda>k. backend" w' cfg f]
    by simp
next
  case (retried cfg w f)
  show ?case
    using request_retried [of "\<lambda>k. backend" w cfg f] request_retried [of "\<lambda>k. backend" w' cfg f]
      retried.hyps retried.IH by simp
qed

text \<open>Every request of a call, the reissued ones included, carries the body of the call.\<close>

lemma bodies_append [simp]: "bodies (w @ v) = bodies w @ bodies v"
  by (induction w rule: bodies.induct) simp_all

lemma cfg_data_interceptor [simp]: "cfg_data (request_interceptor c) = cfg_data c"
  by (simp add: request_interceptor_def)

lemma cfg_data_bump [simp]: "cfg_data (bump c) = cfg_data c"
  by (simp add: bump_def)

lemma request_bodies:
  "\<exists>n. bodies (snd (request adapter cfg w)) = bodies w @ replicate (Suc n) (cfg_data cfg)"
proof (induction cfg w rule: request_induct [where adapter = adapter])
  case (resolved cfg w r)
  then show ?case using request_resolved [of adapter w cfg r] 
    by simp
next
  case (rejected cfg w f)
  then show ?case using request_rejected [of adapter w cfg f] 
    by simp
next
  case (retried cfg w f)
  from retried.IH obtain n where
    "bodies (snd (request adapter (bump (request_interceptor cfg))
        (w @ [Sent (request_interceptor cfg), Slept (retryDelay (request_interceptor cfg))]))) =
     bodies w @ replicate (Suc (Suc n)) (cfg_data cfg)"
    by auto
  then have "bodies (snd (request adapter cfg w)) = bodies w @ replicate (Suc (Suc n)) (cfg_data cfg)"
    using request_retried [of adapter w cfg f] retried.hyps by simp
  then show ?case by blast
qed

lemma fst_api_call:
  "fst (api_call adapter url body w) =
     handleApiResponse (js_of_outcome (fst (request adapter (fresh_config url body) w)))"
  by (simp add: api_call_def post_def split_beta)

lemma snd_api_call:
  "snd (api_call adapter url body w) = snd (request adapter (fresh_config url body) w)"
  by (simp add: api_call_def post_def split_beta)

lemma api_call_time_independent:
  "fst (api_call (\<lambda>k. backend) url body w') = fst (api_call (\<lambda>k. backend) url body w)"
  using request_time_independent [of backend "fresh_config url body" w' w]
  by (simp add: fst_api_call)

lemma api_call_bodies:
  "\<exists>n. bodies (snd (api_call adapter url body w)) = bodies w @ replicate (Suc n) body"
  using request_bodies [of adapter "fresh_config url body" w]
  by (simp add: snd_api_call fresh_config_def)

lemma api_call_bodies_set: "set (bodies (snd (api_call adapter url body []))) = {body}"
  using api_call_bodies [of adapter url body "[]"] by auto

lemma api_call_bodies_nonempty: "bodies (snd (api_call adapter url body [])) \<noteq> []"
  using api_call_bodies [of adapter url body "[]"] by auto

section \<open>The envelope invariant\<close>

lemma rejection_text_type_error: "is_string (rejection_text (type_error v k))"
  by (simp add: rejection_text_def type_error_def is_string_def Let_def)

lemma handle_resolved_ok:
  assumes "errMsg_ok (resp_data r)"
  shows "\<exists>env. handleApiResponse (Fulfilled (js_of_response r)) = Inr env \<and> envelope_ok env \<and>
           (success env \<longrightarrow> data env = Some (opt_member (resp_data r) (ascii ''data'')))"
proof (cases "nullish (resp_data r)")
  case True
  have "try_block (Fulfilled (js_of_response r)) =
      Inl (type_error (resp_data r) (ascii ''errCode''))"
    by (simp add: try_block_def js_of_response_def member_nullish [OF True])
  then have "handleApiResponse (Fulfilled (js_of_response r)) =
      Inr (failed (rejection_text (type_error (resp_data r) (ascii ''errCode''))))"
    by (simp add: handleApiResponse_def catch_block_not_nullish)
  then show ?thesis
    using rejection_text_type_error [of "resp_data r" "ascii ''errCode''"]
    by (simp add: envelope_ok_def failed_def)
next
  case False
  have m: "member (js_of_response r) (ascii ''data'') = Inr (resp_data r)"
    by (simp add: js_of_response_def)
  show ?thesis
    using assms
    by (simp add: resolved_body_envelope [OF m False] envelope_ok_def failed_def
        succeeded_def errMsg_ok_def is_string_def unknown_error_def)
qed

lemma rejection_text_axios_error:
  "rejection_text (js_of_error (axios_error c f)) =
     (let errMsg = (case fail_response f of None \<Rightarrow> JUndefined
                    | Some r \<Rightarrow> opt_member (resp_data r) (ascii ''errMsg''));
          message = js_str (fail_message f)
      in if truthy errMsg then errMsg else if truthy message then message
         else JStr unknown_error)"
  by (simp add: rejection_text_def js_of_error_def axios_error_def js_of_response_def js_str_def
      Let_def split: option.split)

lemma handle_failed_ok:
  assumes "conforming (Inl f)"
  shows "\<exists>t. handleApiResponse (Rejected (js_of_error (axios_error c f))) = Inr (failed t) \<and>
           is_string t"
proof -
  have "is_string (rejection_text (js_of_error (axios_error c f)))"
    using assms
    by (auto simp: rejection_text_axios_error conforming_def errMsg_ok_def is_string_def
        js_str_def Let_def split: option.splits)
  then show ?thesis
    by (simp add: handleApiResponse_rejected catch_block_not_nullish) blast
qed

lemma invariant_holds_failed [simp]: "invariant_holds adapter (Inr (failed (JStr m)), w)"
  by (simp add: invariant_holds_def envelope_ok_def failed_def is_string_def)

lemma api_call_invariant:
  assumes "\<forall>k c. conforming (adapter k c)"
  shows "invariant_holds adapter (api_call adapter url body w)"
proof (cases "fst (request adapter (fresh_config url body) w)")
  case (Resolved r)
  with request_provenance [of adapter "fresh_config url body" w]
  obtain k c where kc: "adapter k c = Inr r" by blast
  with assms have "conforming (Inr r)" by metis
  then have "errMsg_ok (resp_data r)" by (simp add: conforming_def)
  from handle_resolved_ok [OF this] obtain env where
    env: "handleApiResponse (Fulfilled (js_of_response r)) = Inr env" "envelope_ok env"
      "success env \<longrightarrow> data env = Some (opt_member (resp_data r) (ascii ''data''))"
    by blast
  have "success env \<longrightarrow> (\<exists>k c r. adapter k c = Inr r \<and>
      data env = Some (opt_member (resp_data r) (ascii ''data'')))"
    using env(3) kc by blast
  with env(1,2) Resolved show ?thesis
    by (simp add: invariant_holds_def fst_api_call js_of_outcome_def)
next
  case (Failed e)
  with request_provenance [of adapter "fresh_config url body" w]
  obtain k c f where kc: "adapter k c = Inl f" "e = axios_error c f" by blast
  with assms have "conforming (Inl f)" by metis
  from handle_failed_ok [OF this, of c] obtain t where
    "handleApiResponse (Rejected (js_of_error (axios_error c f))) = Inr (failed t)" "is_string t"
    by blast
  with kc Failed show ?thesis
    by (simp add: invariant_holds_def fst_api_call js_of_outcome_def envelope_ok_def failed_def)
qed

lemma addEmail_invariant:
  "\<forall>k c. conforming (adapter k c) \<Longrightarrow> invariant_holds adapter (addEmail adapter emailData w)"
  by (simp add: addEmail_def api_call_invariant)

lemma getLatestEmail_invariant:
  "\<forall>k c. conforming (adapter k c) \<Longrightarrow> invariant_holds adapter (getLatestEmail adapter params w)"
  by (simp add: getLatestEmail_def api_call_invariant)

lemma queryEmails_invariant:
  "\<forall>k c. conforming (adapter k c) \<Longrightarrow> invariant_holds adapter (queryEmails adapter params w)"
  by (simp add: queryEmails_def api_call_invariant)

lemma addEmailAccount_invariant:
  "\<forall>k c. conforming (adapter k c) \<Longrightarrow>
   invariant_holds adapter (addEmailAccount adapter accountData w)"
  by (simp add: addEmailAccount_def api_call_invariant)

lemma updateEmailAccount_invariant:
  "\<forall>k c. conforming (adapter k c) \<Longrightarrow>
   invariant_holds adapter (updateEmailAccount adapter account w)"
  by (simp add: updateEmailAccount_def api_call_invariant split: option.split)

lemma accepting_conforming: "\<forall>k c. conforming (accepting_adapter k c)"
  by (simp add: conforming_def accepting_adapter_def errMsg_ok_def is_string_def)

text \<open>
  Claim C2, as the code has it: whenever the bodies the network answers with have a string
  as their \<open>errMsg\<close> (or none, or a falsy one), the result of each of the five operations is an envelope
  that keeps the invariant, on the validation failures and after the normaliser alike: a
  success has no \<open>error\<close> and its \<open>data\<close> is the \<open>data\<close> field of a body the network answered
  with; a failure has a string as its \<open>error\<close>.
\<close>

theorem envelope_invariant:
  assumes "\<forall>k c. conforming (adapter k c)"
  shows "invariant_holds adapter (addEmail adapter emailData w) \<and>
         invariant_holds adapter (getLatestEmail adapter params w) \<and>
         invariant_holds adapter (queryEmails adapter params w) \<and>
         invariant_holds adapter (addEmailAccount adapter accountData w) \<and>
         invariant_holds adapter (updateEmailAccount adapter account w)"
  using assms
  by (simp only: addEmail_invariant getLatestEmail_invariant queryEmails_invariant
      addEmailAccount_invariant updateEmailAccount_invariant simp_thms)

theorem envelope_invariant_witness:
  "(\<forall>k c. conforming (accepting_adapter k c)) \<and>
   invariant_holds accepting_adapter (addEmail accepting_adapter email_example []) \<and>
   invariant_holds accepting_adapter (queryEmails accepting_adapter query_type3 []) \<and>
   invariant_holds accepting_adapter (addEmailAccount accepting_adapter only_username [])"
  using envelope_invariant
    [OF accepting_conforming, of email_example "[]" query_type3 only_username update_example]
    accepting_conforming
  by blast

text \<open>
  Claim C2 as stated fails when the backend sends an \<open>errMsg\<close> that is not a string: the
  normaliser hands it on as it is, and the \<open>error\<close> of the envelope is the number 5.
\<close>

theorem numeric_errMsg_not_string:
  "fst (getLatestEmail numeric_adapter latest_example []) = Inr (failed (JNum 5)) \<and>
   \<not> envelope_ok (failed (JNum 5)) \<and>
   \<not> invariant_holds numeric_adapter (getLatestEmail numeric_adapter latest_example [])"
proof -
  have r: "fst (getLatestEmail numeric_adapter latest_example []) = Inr (failed (JNum 5))"
    by (simp add: latest_example_def getLatestEmail_def js_includes_def email_sources_def
        email_types_def js_str_def js_num_def js_of_number_def fst_api_call request.simps
        numeric_adapter_def js_of_outcome_def js_of_response_def handleApiResponse_def
        try_block_def Let_def)
  have e: "\<not> envelope_ok (failed (JNum 5))"
    by (simp add: envelope_ok_def failed_def is_string_def)
  from r e show ?thesis by (simp add: invariant_holds_def)
qed

section \<open>The validation of the operations\<close>

lemma valid_source_truthy:
  "js_includes email_sources (js_str x) \<Longrightarrow> truthy (js_str x)"
  by (auto simp: js_includes_def email_sources_def js_str_def split: option.splits)

lemma valid_type_truthy:
  "js_includes email_types (js_num x) \<Longrightarrow> truthy (js_num x)"
  by (auto simp: js_includes_def email_types_def js_num_def js_of_number_def
      split: option.splits jsnumber.splits)

lemma queryEmails_source_missing:
  "email_source params = None \<Longrightarrow>
   queryEmails adapter params w = (Inr (failed (JStr msg_source_empty)), w)"
  by (simp add: queryEmails_def js_str_def)

lemma queryEmails_source_invalid:
  "\<not> js_includes email_sources (js_str (email_source params)) \<Longrightarrow>
   queryEmails adapter params w =
     (Inr (failed (JStr (if truthy (js_str (email_source params)) then msg_source_invalid
                         else msg_source_empty))), w)"
  by (simp add: queryEmails_def)

lemma queryEmails_type_invalid:
  "js_includes email_sources (js_str (email_source params)) \<Longrightarrow>
   \<not> js_includes email_types (js_num (email_type params)) \<Longrightarrow>
   queryEmails adapter params w =
     (Inr (failed (JStr (if truthy (js_num (email_type params)) then msg_type_invalid
                         else msg_type_empty))), w)"
  by (simp add: queryEmails_def valid_source_truthy)

lemma queryEmails_page_invalid:
  "js_includes email_sources (js_str (email_source params)) \<Longrightarrow>
   js_includes email_types (js_num (email_type params)) \<Longrightarrow>
   page params = Some (Num n) \<Longrightarrow> n < 1 \<Longrightarrow>
   queryEmails adapter params w = (Inr (failed (JStr msg_page)), w)"
  by (simp add: queryEmails_def valid_source_truthy valid_type_truthy page_of_def num_less_def)

lemma queryEmails_pageSize_invalid:
  "js_includes email_sources (js_str (email_source params)) \<Longrightarrow>
   js_includes email_types (js_num (email_type params)) \<Longrightarrow>
   \<not> num_less (page_of params) (Num 1) \<Longrightarrow>
   pageSize params = Some (Num n) \<Longrightarrow> n < 1 \<or> 100 < n \<Longrightarrow>
   queryEmails adapter params w = (Inr (failed (JStr msg_pageSize)), w)"
  by (simp add: queryEmails_def valid_source_truthy valid_type_truthy pageSize_of_def
      num_less_def)

text \<open>
  What the validation of \<open>queryEmails\<close> does achieve: on a malformed input whose page size
  is not NaN it returns the failure envelope with the message of the first rule the input
  breaks (the source, then the type, then the page, then the page size) and leaves the
  trace as it was, whatever the network.
\<close>

lemma queryEmails_rejects:
  assumes "malformed_query params" and "pageSize params \<noteq> Some NaN"
  shows "(\<exists>m \<in> set query_messages. queryEmails adapter params w = (Inr (failed (JStr m)), w)) \<and>
    (js_str (email_source params) \<notin> set email_sources \<longrightarrow>
       queryEmails adapter params w =
         (Inr (failed (JStr (if email_source params = None \<or> email_source params = Some []
                             then msg_source_empty else msg_source_invalid))), w)) \<and>
    (js_str (email_source params) \<in> set email_sources \<and>
     js_num (email_type params) \<notin> set email_types \<longrightarrow>
       queryEmails adapter params w =
         (Inr (failed (JStr (if truthy (js_num (email_type params))
                             then msg_type_invalid else msg_type_empty))), w)) \<and>
    (js_str (email_source params) \<in> set email_sources \<and>
     js_num (email_type params) \<in> set email_types \<and>
     (\<exists>n. page params = Some (Num n) \<and> n < 1) \<longrightarrow>
       queryEmails adapter params w = (Inr (failed (JStr msg_page)), w)) \<and>
    (js_str (email_source params) \<in> set email_sources \<and>
     js_num (email_type params) \<in> set email_types \<and>
     \<not> (\<exists>n. page params = Some (Num n) \<and> n < 1) \<and>
     (\<exists>n. pageSize params = Some (Num n) \<and> (n < 1 \<or> 100 < n)) \<longrightarrow>
       queryEmails adapter params w = (Inr (failed (JStr msg_pageSize)), w))"
proof -
  let ?r = "queryEmails adapter params w"
  have src: "js_str (email_source params) \<notin> set email_sources \<longrightarrow>
       ?r = (Inr (failed (JStr (if email_source params = None \<or> email_source params = Some []
                             then msg_source_empty else msg_source_invalid))), w)"
    using queryEmails_source_invalid [of params adapter w]
    by (auto simp: js_includes_def js_str_def split: option.splits)
  have ety: "js_str (email_source params) \<in> set email_sources \<and>
     js_num (email_type params) \<notin> set email_types \<longrightarrow>
       ?r = (Inr (failed (JStr (if truthy (js_num (email_type params))
                             then msg_type_invalid else msg_type_empty))), w)"
    using queryEmails_type_invalid [of params adapter w]
    by (simp add: js_includes_def)
  have pg: "js_str (email_source params) \<in> set email_sources \<and>
     js_num (email_type params) \<in> set email_types \<and>
     (\<exists>n. page params = Some (Num n) \<and> n < 1) \<longrightarrow> ?r = (Inr (failed (JStr msg_page)), w)"
    using queryEmails_page_invalid [of params _ adapter w]
    by (auto simp: js_includes_def)
  have not_less: "\<not> (\<exists>n. page params = Some (Num n) \<and> n < 1) \<Longrightarrow>
      \<not> num_less (page_of params) (Num 1)"
    by (auto simp: page_of_def num_less_def split: option.splits jsnumber.splits)
  have ps: "js_str (email_source params) \<in> set email_sources \<and>
     js_num (email_type params) \<in> set email_types \<and>
     \<not> (\<exists>n. page params = Some (Num n) \<and> n < 1) \<and>
     (\<exists>n. pageSize params = Some (Num n) \<and> (n < 1 \<or> 100 < n)) \<longrightarrow>
       ?r = (Inr (failed (JStr msg_pageSize)), w)"
    using queryEmails_pageSize_invalid [of params _ adapter w] not_less
    by (auto simp: js_includes_def)
  have "\<exists>m \<in> set query_messages. ?r = (Inr (failed (JStr m)), w)"
  proof (cases "js_str (email_source params) \<in> set email_sources")
    case False
    with src show ?thesis by (simp add: query_messages_def)
  next
    case s: True
    show ?thesis
    proof (cases "js_num (email_type params) \<in> set email_types")
      case False
      with s ety show ?thesis by (simp add: query_messages_def)
    next
      case t: True
      show ?thesis
      proof (cases "\<exists>n. page params = Some (Num n) \<and> n < 1")
        case True
        with s t pg show ?thesis by (simp add: query_messages_def)
      next
        case False
        with s t assms have "\<exists>n. pageSize params = Some (Num n) \<and> (n < 1 \<or> 100 < n)"
          by (auto simp: malformed_query_def js_str_def email_sources_def
              split: option.splits jsnumber.splits)
        with s t False ps show ?thesis by (simp add: query_messages_def)
      qed
    qed
  qed
  with src ety pg ps show ?thesis by blast
qed

text \<open>The example of the specification: a query of the type 3 is refused, and nothing is sent.\<close>

lemma queryEmails_rejects_type3:
  "malformed_query query_type3 \<and>
   queryEmails timeout_adapter query_type3 [] = (Inr (failed (JStr msg_type_invalid)), [])"
  by (simp add: malformed_query_def query_type3_def queryEmails_def js_includes_def
      email_sources_def email_types_def js_str_def js_num_def js_of_number_def)

text \<open>The query whose page size is NaN is malformed: NaN is not within 1 to 100.\<close>

lemma query_nan_malformed: "malformed_query query_nan"
  by (simp add: malformed_query_def query_nan_def)

text \<open>
  Claim C7 at the query whose page size is NaN: both comparisons of line 279 are false, so
  the validation lets the input through, and the request is sent with NaN as its page
  size; the call returns the backend's answer, not a validation failure.
\<close>

theorem queryEmails_NaN_pageSize_sent:
  "queryEmails accepting_adapter query_nan [] =
     (Inr (succeeded (JObj [(ascii ''_id'', JStr (ascii ''id1''))])),
      [Sent (request_interceptor
               (fresh_config (ascii ''/email/queryEmails'')
                  (JObj [(ascii ''email_source'', JStr (ascii ''huel'')),
                         (ascii ''email_type'', JNum 2),
                         (ascii ''page'', JNum 1),
                         (ascii ''pageSize'', JNaN)])))])"
  by (simp add: query_nan_def queryEmails_def queryEmails_requestBody_def js_includes_def
      email_sources_def email_types_def js_str_def js_num_def js_of_number_def num_less_def
      page_of_def pageSize_of_def set_if_def api_call_def post_def request.simps
      accepting_adapter_def js_of_outcome_def js_of_response_def handleApiResponse_def
      try_block_def Let_def)

section \<open>The request bodies of the operations\<close>

lemma addEmail_bodies:
  "set (bodies (snd (addEmail adapter emailData []))) \<subseteq> {addEmail_requestBody emailData}"
  by (simp add: addEmail_def api_call_bodies_set)

lemma queryEmails_bodies:
  "set (bodies (snd (queryEmails adapter params []))) \<subseteq> {queryEmails_requestBody params}"
  by (simp add: queryEmails_def api_call_bodies_set)

lemma addEmailAccount_bodies:
  "set (bodies (snd (addEmailAccount adapter accountData []))) \<subseteq>
     {addEmailAccount_requestData accountData}"
  by (simp add: addEmailAccount_def api_call_bodies_set)

lemma updateEmailAccount_bodies:
  "set (bodies (snd (updateEmailAccount adapter params []))) \<subseteq>
     (case updateData params of None \<Rightarrow> {}
      | Some ud \<Rightarrow> {updateEmailAccount_requestData params ud})"
  by (simp add: updateEmailAccount_def api_call_bodies_set split: option.split)

lemma addEmail_fields:
  "field (addEmail_requestBody e) (ascii ''sender_name'') = when_truthy (js_str (sender_name e))"
  "field (addEmail_requestBody e) (ascii ''content'') = when_truthy (js_str (content e))"
  "field (addEmail_requestBody e) (ascii ''email_id'') = when_truthy (js_str (email_id e))"
  "field (addEmail_requestBody e) (ascii ''mail_time'') = when_truthy (js_num (mail_time e))"
  by (simp_all add: addEmail_requestBody_def field_def set_if_def when_truthy_def)

lemma queryEmails_fields:
  "field (queryEmails_requestBody q) (ascii ''recipient_email'') =
     when_truthy (js_str (recipient_email q))"
  "field (queryEmails_requestBody q) (ascii ''sender_email'') =
     when_truthy (js_str (sender_email q))"
  "field (queryEmails_requestBody q) (ascii ''subject'') = when_truthy (js_str (subject q))"
  "field (queryEmails_requestBody q) (ascii ''page'') =
     Some (case page q of None \<Rightarrow> JNum 1 | Some n \<Rightarrow> js_of_number n)"
  "field (queryEmails_requestBody q) (ascii ''pageSize'') =
     Some (case pageSize q of None \<Rightarrow> JNum 20 | Some n \<Rightarrow> js_of_number n)"
  by (simp_all add: queryEmails_requestBody_def field_def set_if_def when_truthy_def
      page_of_def pageSize_of_def js_of_number_def split: option.split)

lemma js_str_defined [simp]: "(js_str x = JUndefined) = (x = None)"
  by (simp add: js_str_def split: option.split)

lemma addEmailAccount_fields:
  "field (addEmailAccount_requestData a) (ascii ''username'') = when_defined (js_str (username a))"
  "field (addEmailAccount_requestData a) (ascii ''password'') = when_defined (js_str (password a))"
  "field (addEmailAccount_requestData a) (ascii ''reg_name'') = when_defined (js_str (reg_name a))"
  "field (addEmailAccount_requestData a) (ascii ''reg_id_card'') =
     when_defined (js_str (reg_id_card a))"
  "field (addEmailAccount_requestData a) (ascii ''reg_backup_email'') =
     when_defined (js_str (reg_backup_email a))"
  "field (addEmailAccount_requestData a) (ascii ''reg_phone'') =
     when_defined (js_str (reg_phone a))"
  "field (addEmailAccount_requestData a) (ascii ''notes'') = when_defined (js_str (notes_text a))"
  "field (addEmailAccount_requestData a) (ascii ''is_sold'') =
     Some (case is_sold a of None \<Rightarrow> JBool False | Some v \<Rightarrow> JBool v)"
  by (simp_all add: addEmailAccount_requestData_def field_def set_if_def when_defined_def
      is_sold_of_def split: option.split)

lemma updateEmailAccount_fields:
  "field (updateEmailAccount_requestData u ud) (ascii ''_id'') = when_truthy (js_str (record_id u))"
  "field (updateEmailAccount_requestData u ud) (ascii ''username'') =
     when_truthy (js_str (username u))"
  "field (updateEmailAccount_requestData u ud) (ascii ''reg_backup_email'') =
     when_truthy (js_str (reg_backup_email u))"
  "field (updateEmailAccount_requestData u ud) (ascii ''updateData'') = Some (JObj (filteredData ud))"
  by (simp_all add: updateEmailAccount_requestData_def field_def set_if_def when_truthy_def)

lemma map_of_delete_key:
  "map_of (delete_key k kvs) x = (if x = k then None else map_of kvs x)"
  by (induction kvs) (auto simp: delete_key_def)

lemma filteredData_filter:
  "filteredData ud = [kv \<leftarrow> ud. fst kv \<noteq> ascii ''_id'' \<and> fst kv \<noteq> ascii ''create_date'']"
  by (simp add: filteredData_def delete_key_def)

lemma map_of_filteredData:
  "map_of (filteredData ud) k =
     (if k = ascii ''_id'' \<or> k = ascii ''create_date'' then None else map_of ud k)"
  by (simp add: filteredData_def map_of_delete_key)

lemma email_example_bodies:
  "bodies (snd (addEmail accepting_adapter email_example [])) = [addEmail_requestBody email_example]"
  by (simp add: email_example_def addEmail_def js_includes_def email_sources_def email_types_def
      js_str_def js_num_def js_of_number_def longer_than_def snd_api_call request.simps
      accepting_adapter_def fresh_config_def request_interceptor_def Let_def)

lemma latest_example_query_bodies:
  "bodies (snd (queryEmails accepting_adapter latest_example [])) =
     [queryEmails_requestBody latest_example]"
  by (simp add: latest_example_def queryEmails_def js_includes_def email_sources_def
      email_types_def js_str_def js_num_def js_of_number_def num_less_def page_of_def
      pageSize_of_def snd_api_call request.simps accepting_adapter_def fresh_config_def
      request_interceptor_def Let_def)

text \<open>
  Claim C8, as the code has it. Every request body that a call puts on the network has
  \<^item> an optional field of \<open>addEmail\<close> (\<open>sender_name\<close>, \<open>content\<close>, \<open>email_id\<close>, \<open>mail_time\<close>), an
    optional filter of \<open>queryEmails\<close> (\<open>recipient_email\<close>, \<open>sender_email\<close>, \<open>subject\<close>) and a
    lookup key of \<open>updateEmailAccount\<close> (\<open>_id\<close>, \<open>username\<close>, \<open>reg_backup_email\<close>) exactly
    when the caller's value is truthy (a string that is not empty, a number that is neither
    0 nor NaN), and then with that value;
  \<^item> \<open>page\<close> and \<open>pageSize\<close> of \<open>queryEmails\<close> always, with the defaults 1 and 20 when the
    caller left them out;
  \<^item> an optional field of \<open>addEmailAccount\<close> exactly when the caller's value is not
    \<open>undefined\<close>, except \<open>is_sold\<close>, which is always there, with the default \<open>false\<close> when the
    caller left it out;
  \<^item> as \<open>updateData\<close> of \<open>updateEmailAccount\<close> the caller's \<open>updateData\<close> without the keys
    \<open>_id\<close> and \<open>create_date\<close>.

  A field that is not forwarded is no key of the body at all.
\<close>

theorem optional_fields_forwarded:
  "(\<forall>b \<in> set (bodies (snd (addEmail adapter e []))).
      field b (ascii ''sender_name'') = when_truthy (js_str (sender_name e)) \<and>
      field b (ascii ''content'') = when_truthy (js_str (content e)) \<and>
      field b (ascii ''email_id'') = when_truthy (js_str (email_id e)) \<and>
      field b (ascii ''mail_time'') = when_truthy (js_num (mail_time e))) \<and>
   (\<forall>b \<in> set (bodies (snd (queryEmails adapter q []))).
      field b (ascii ''recipient_email'') = when_truthy (js_str (recipient_email q)) \<and>
      field b (ascii ''sender_email'') = when_truthy (js_str (sender_email q)) \<and>
      field b (ascii ''subject'') = when_truthy (js_str (subject q)) \<and>
      field b (ascii ''page'') =
        Some (case page q of None \<Rightarrow> JNum 1 | Some n \<Rightarrow> js_of_number n) \<and>
      field b (ascii ''pageSize'') =
        Some (case pageSize q of None \<Rightarrow> JNum 20 | Some n \<Rightarrow> js_of_number n)) \<and>
   (\<forall>b \<in> set (bodies (snd (addEmailAccount adapter a []))).
      field b (ascii ''username'') = when_defined (js_str (username a)) \<and>
      field b (ascii ''password'') = when_defined (js_str (password a)) \<and>
      field b (ascii ''reg_name'') = when_defined (js_str (reg_name a)) \<and>
      field b (ascii ''reg_id_card'') = when_defined (js_str (reg_id_card a)) \<and>
      field b (ascii ''reg_backup_email'') = when_defined (js_str (reg_backup_email a)) \<and>
      field b (ascii ''reg_phone'') = when_defined (js_str (reg_phone a)) \<and>
      field b (ascii ''notes'') = when_defined (js_str (notes_text a)) \<and>
      field b (ascii ''is_sold'') =
        Some (case is_sold a of None \<Rightarrow> JBool False | Some v \<Rightarrow> JBool v)) \<and>
   (\<forall>b \<in> set (bodies (snd (updateEmailAccount adapter u []))).
      field b (ascii ''_id'') = when_truthy (js_str (record_id u)) \<and>
      field b (ascii ''username'') = when_truthy (js_str (username u)) \<and>
      field b (ascii ''reg_backup_email'') = when_truthy (js_str (reg_backup_email u)) \<and>
      field b (ascii ''updateData'') =
        map_option
          (\<lambda>ud. JObj [kv \<leftarrow> ud. fst kv \<noteq> ascii ''_id'' \<and> fst kv \<noteq> ascii ''create_date''])
          (updateData u))"
proof (intro conjI ballI)
  fix b assume "b \<in> set (bodies (snd (addEmail adapter e [])))"
  with addEmail_bodies [of adapter e] have b: "b = addEmail_requestBody e" by blast
  show "field b (ascii ''sender_name'') = when_truthy (js_str (sender_name e))"
    "field b (ascii ''content'') = when_truthy (js_str (content e))"
    "field b (ascii ''email_id'') = when_truthy (js_str (email_id e))"
    "field b (ascii ''mail_time'') = when_truthy (js_num (mail_time e))"
    unfolding b by (rule addEmail_fields)+
next
  fix b assume "b \<in> set (bodies (snd (queryEmails adapter q [])))"
  with queryEmails_bodies [of adapter q] have b: "b = queryEmails_requestBody q" by blast
  show "field b (ascii ''recipient_email'') = when_truthy (js_str (recipient_email q))"
    "field b (ascii ''sender_email'') = when_truthy (js_str (sender_email q))"
    "field b (ascii ''subject'') = when_truthy (js_str (subject q))"
    "field b (ascii ''page'') =
       Some (case page q of None \<Rightarrow> JNum 1 | Some n \<Rightarrow> js_of_number n)"
    "field b (ascii ''pageSize'') =
       Some (case pageSize q of None \<Rightarrow> JNum 20 | Some n \<Rightarrow> js_of_number n)"
    unfolding b by (rule queryEmails_fields)+
next
  fix b assume "b \<in> set (bodies (snd (addEmailAccount adapter a [])))"
  with addEmailAccount_bodies [of adapter a] have b: "b = addEmailAccount_requestData a" by blast
  show "field b (ascii ''username'') = when_defined (js_str (username a))"
    "field b (ascii ''password'') = when_defined (js_str (password a))"
    "field b (ascii ''reg_name'') = when_defined (js_str (reg_name a))"
    "field b (ascii ''reg_id_card'') = when_defined (js_str (reg_id_card a))"
    "field b (ascii ''reg_backup_email'') = when_defined (js_str (reg_backup_email a))"
    "field b (ascii ''reg_phone'') = when_defined (js_str (reg_phone a))"
    "field b (ascii ''notes'') = when_defined (js_str (notes_text a))"
    "field b (ascii ''is_sold'') =
       Some (case is_sold a of None \<Rightarrow> JBool False | Some v \<Rightarrow> JBool v)"
    unfolding b by (rule addEmailAccount_fields)+
next
  fix b assume "b \<in> set (bodies (snd (updateEmailAccount adapter u [])))"
  with updateEmailAccount_bodies [of adapter u] obtain ud where
    ud: "updateData u = Some ud" and b: "b = updateEmailAccount_requestData u ud"
    by (cases "updateData u") auto
  show "field b (ascii ''_id'') = when_truthy (js_str (record_id u))"
    "field b (ascii ''username'') = when_truthy (js_str (username u))"
    "field b (ascii ''reg_backup_email'') = when_truthy (js_str (reg_backup_email u))"
    unfolding b by (rule updateEmailAccount_fields)+
  show "field b (ascii ''updateData'') =
        map_option
          (\<lambda>ud. JObj [kv \<leftarrow> ud. fst kv \<noteq> ascii ''_id'' \<and> fst kv \<noteq> ascii ''create_date''])
          (updateData u)"
    unfolding b by (simp add: ud updateEmailAccount_fields filteredData_filter)
qed

theorem optional_fields_forwarded_witness:
  "bodies (snd (addEmail accepting_adapter email_example [])) \<noteq> [] \<and>
   field (hd (bodies (snd (addEmail accepting_adapter email_example [])))) (ascii ''sender_name'') = None \<and>
   field (hd (bodies (snd (addEmail accepting_adapter email_example [])))) (ascii ''content'') =
     Some (JStr (ascii ''123456'')) \<and>
   bodies (snd (queryEmails accepting_adapter latest_example [])) \<noteq> [] \<and>
   field (hd (bodies (snd (queryEmails accepting_adapter latest_example [])))) (ascii ''subject'') = None \<and>
   field (hd (bodies (snd (queryEmails accepting_adapter latest_example [])))) (ascii ''page'') =
     Some (JNum 1) \<and>
   field (hd (bodies (snd (queryEmails accepting_adapter latest_example [])))) (ascii ''pageSize'') =
     Some (JNum 20)"
  using optional_fields_forwarded [of accepting_adapter email_example latest_example]
  by (simp add: email_example_bodies latest_example_query_bodies)
     (simp add: email_example_def latest_example_def when_truthy_def js_str_def)

text \<open>
  Claim C8 as stated fails on \<open>addEmailAccount\<close>: the caller gives a user name only, and the
  body that is sent has the field \<open>is_sold\<close>.
\<close>

theorem is_sold_always_sent:
  "is_sold only_username = None \<and>
   bodies (snd (addEmailAccount accepting_adapter only_username [])) =
     [JObj [(ascii ''username'', JStr (ascii ''test@kmmu.edu.cn'')),
            (ascii ''is_sold'', JBool False)]]"
  by (simp add: only_username_def addEmailAccount_def addEmailAccount_requestData_def
      is_sold_of_def set_if_def js_str_def snd_api_call request.simps accepting_adapter_def
      fresh_config_def request_interceptor_def Let_def)

text \<open>
  Claim C10: when \<open>updateEmailAccount\<close> passes its validation (one of the three lookup keys
  is truthy and \<open>updateData\<close> has a key), a request is sent, and the \<open>updateData\<close> of
  every body sent is the caller's \<open>updateData\<close> without the keys \<open>_id\<close> and
  \<open>create_date\<close>: the other keys keep their order and their values.
\<close>

theorem updateEmailAccount_filtered:
  assumes "truthy (js_str (record_id params)) \<or> truthy (js_str (username params)) \<or>
           truthy (js_str (reg_backup_email params))"
    and "updateData params = Some ud" and "ud \<noteq> []"
  shows "bodies (snd (updateEmailAccount adapter params [])) \<noteq> [] \<and>
    (\<forall>b \<in> set (bodies (snd (updateEmailAccount adapter params []))).
       field b (ascii ''updateData'') =
         Some (JObj [kv \<leftarrow> ud. fst kv \<noteq> ascii ''_id'' \<and> fst kv \<noteq> ascii ''create_date''])) \<and>
    (\<forall>k. map_of [kv \<leftarrow> ud. fst kv \<noteq> ascii ''_id'' \<and> fst kv \<noteq> ascii ''create_date''] k =
       (if k = ascii ''_id'' \<or> k = ascii ''create_date'' then None else map_of ud k))"
proof -
  have call: "updateEmailAccount adapter params [] =
      api_call adapter (ascii ''/emailAccountAdmin/updateEmailAccount'')
        (updateEmailAccount_requestData params ud) []"
    using assms by (auto simp: updateEmailAccount_def)
  have "field (updateEmailAccount_requestData params ud) (ascii ''updateData'') =
      Some (JObj [kv \<leftarrow> ud. fst kv \<noteq> ascii ''_id'' \<and> fst kv \<noteq> ascii ''create_date''])"
    by (simp add: updateEmailAccount_fields filteredData_filter)
  moreover have "\<forall>k. map_of [kv \<leftarrow> ud. fst kv \<noteq> ascii ''_id'' \<and> fst kv \<noteq> ascii ''create_date''] k =
       (if k = ascii ''_id'' \<or> k = ascii ''create_date'' then None else map_of ud k)"
    using map_of_filteredData [of ud] by (simp add: filteredData_filter)
  ultimately show ?thesis
    by (simp add: call api_call_bodies_set api_call_bodies_nonempty)
qed

theorem updateEmailAccount_filtered_witness:
  "truthy (js_str (record_id update_example)) \<and>
   updateData update_example =
     Some [(ascii ''_id'', JStr (ascii ''other'')),
           (ascii ''username'', JStr (ascii ''success@kmmu.edu.cn'')),
           (ascii ''create_date'', JNum 1700000000000),
           (ascii ''is_sold'', JBool True)] \<and>
   field (hd (bodies (snd (updateEmailAccount accepting_adapter update_example []))))
     (ascii ''updateData'') =
     Some (JObj [(ascii ''username'', JStr (ascii ''success@kmmu.edu.cn'')),
                 (ascii ''is_sold'', JBool True)])"
proof -
  let ?ud = "[(ascii ''_id'', JStr (ascii ''other'')),
           (ascii ''username'', JStr (ascii ''success@kmmu.edu.cn'')),
           (ascii ''create_date'', JNum 1700000000000),
           (ascii ''is_sold'', JBool True)]"
  have a: "truthy (js_str (record_id update_example)) \<or> truthy (js_str (username update_example)) \<or>
           truthy (js_str (reg_backup_email update_example))"
    by (simp add: update_example_def js_str_def)
  have b: "updateData update_example = Some ?ud" by (simp add: update_example_def)
  have c: "?ud \<noteq> []" by simp
  note t = updateEmailAccount_filtered [OF a b c, of accepting_adapter]
  have "hd (bodies (snd (updateEmailAccount accepting_adapter update_example []))) \<in>
      set (bodies (snd (updateEmailAccount accepting_adapter update_example [])))"
    using t by simp
  with t have "field (hd (bodies (snd (updateEmailAccount accepting_adapter update_example []))))
     (ascii ''updateData'') =
     Some (JObj [kv \<leftarrow> ?ud. fst kv \<noteq> ascii ''_id'' \<and> fst kv \<noteq> ascii ''create_date''])"
    by blast
  then show ?thesis using b by (simp add: update_example_def js_str_def)
qed

section \<open>Repeated queries\<close>

text \<open>
  Claim C9: against a backend whose answer to a request does not change, the second of two
  calls of \<open>getLatestEmail\<close> with the same parameters, run on the trace the first one left,
  returns the envelope the first one returned.
\<close>

theorem getLatestEmail_idempotent:
  "fst (getLatestEmail (\<lambda>k. backend) params (snd (getLatestEmail (\<lambda>k. backend) params w))) =
   fst (getLatestEmail (\<lambda>k. backend) params w)"
proof -
  define E where "E = (\<lambda>url body. fst (api_call (\<lambda>k. backend) url body []))"
  have r: "\<And>url body w. fst (api_call (\<lambda>k. backend) url body w) = E url body"
    unfolding E_def by (rule api_call_time_independent)
  show ?thesis by (simp add: getLatestEmail_def r)
qed

theorem getLatestEmail_idempotent_witness:
  "sent_count (snd (getLatestEmail (\<lambda>k. accepting_adapter 0) latest_example [])) = 1 \<and>
   fst (getLatestEmail (\<lambda>k. accepting_adapter 0) latest_example []) =
     Inr (succeeded (JObj [(ascii ''_id'', JStr (ascii ''id1''))])) \<and>
   fst (getLatestEmail (\<lambda>k. accepting_adapter 0) latest_example
          (snd (getLatestEmail (\<lambda>k. accepting_adapter 0) latest_example []))) =
     Inr (succeeded (JObj [(ascii ''_id'', JStr (ascii ''id1''))]))"
proof -
  have first: "getLatestEmail (\<lambda>k. accepting_adapter 0) latest_example [] =
      (Inr (succeeded (JObj [(ascii ''_id'', JStr (ascii ''id1''))])),
       [Sent (request_interceptor
                (fresh_config (ascii ''/email/getLatestEmail'')
                   (JObj [(ascii ''email_source'', JStr (ascii ''huel'')),
                          (ascii ''email_type'', JNum 2)])))])"
    by (simp add: latest_example_def getLatestEmail_def js_includes_def email_sources_def
        email_types_def js_str_def js_num_def js_of_number_def api_call_def post_def
        request.simps accepting_adapter_def js_of_outcome_def js_of_response_def
        handleApiResponse_def try_block_def Let_def)
  have second: "fst (getLatestEmail (\<lambda>k. accepting_adapter 0) latest_example
          (snd (getLatestEmail (\<lambda>k. accepting_adapter 0) latest_example []))) =
     fst (getLatestEmail (\<lambda>k. accepting_adapter 0) latest_example [])"
    by (rule getLatestEmail_idempotent)
  show ?thesis
    unfolding second by (simp add: first)
qed

end
